theory Spec2Isabelle
  imports Complex_Main
begin

section \<open>Processing lock (models/processing-lock.model.ts)\<close>

text \<open>
  Dates are milliseconds since the epoch (\<open>Date.getTime()\<close>), ObjectIds are strings.
  The \<open>ProcessingLock\<close> collection has a unique index on \<open>key\<close>, so it is a map from
  the key to the rest of the document: two documents with one key cannot coexist.
\<close>

record IProcessingLockMetadata =
  md_videoId :: "string option"
  md_userId :: "string option"
  md_targetDuration :: "rat option"
  md_estimatedCompletion :: "int option"

record IProcessingLock =
  isLocked :: bool
  lockedBy :: string
  lockedAt :: "int option"
  expiresAt :: "int option"
  metadata :: IProcessingLockMetadata

type_synonym lock_collection = "string \<rightharpoonup> IProcessingLock"

definition emptyMetadata :: IProcessingLockMetadata where
  "emptyMetadata =
     \<lparr>md_videoId = None, md_userId = None, md_targetDuration = None,
      md_estimatedCompletion = None\<rparr>"

text \<open>
  The document an upsert inserts before the update is applied: the schema defaults
  (\<open>setDefaultsOnInsert\<close>): \<open>isLocked: false\<close>, \<open>metadata: {}\<close>, no dates.
\<close>

definition lockDefaults :: IProcessingLock where
  "lockDefaults =
     \<lparr>isLocked = False, lockedBy = [], lockedAt = None, expiresAt = None,
      metadata = emptyMetadata\<rparr>"

text \<open>
  \<open>findOneAndUpdate(filter, update, {new: true, upsert: true})\<close> on the collection, for a
  filter that fixes \<open>key\<close> and puts a further condition on the document. One store
  operation: a document that matches is updated and returned; when none matches the
  store inserts a new one, which the unique index rejects with error code 11000 when a
  document with that key (not matching the rest of the filter) is there already.
\<close>

definition findOneAndUpdateUpsert ::
  "string \<Rightarrow> (IProcessingLock \<Rightarrow> bool) \<Rightarrow> (IProcessingLock \<Rightarrow> IProcessingLock) \<Rightarrow>
   lock_collection \<Rightarrow> (nat + IProcessingLock) \<times> lock_collection" where
  "findOneAndUpdateUpsert k cond upd coll =
     (case coll k of
        Some doc \<Rightarrow>
          if cond doc then (Inr (upd doc), coll(k \<mapsto> upd doc))
          else (Inl 11000, coll)
      | None \<Rightarrow> (Inr (upd lockDefaults), coll(k \<mapsto> upd lockDefaults)))"

text \<open>The filter's \<open>$or: [{isLocked: false}, {expiresAt: {$lt: now}}]\<close>; a missing or null
  \<open>expiresAt\<close> does not match \<open>$lt\<close>.\<close>

definition acquireFilter :: "int \<Rightarrow> IProcessingLock \<Rightarrow> bool" where
  "acquireFilter now doc =
     (isLocked doc = False \<or> (case expiresAt doc of None \<Rightarrow> False | Some e \<Rightarrow> e < now))"

definition acquireUpdate ::
  "string \<Rightarrow> int \<Rightarrow> int \<Rightarrow> IProcessingLockMetadata \<Rightarrow> IProcessingLock \<Rightarrow> IProcessingLock" where
  "acquireUpdate owner now expires md doc =
     doc\<lparr>isLocked := True, lockedBy := owner, lockedAt := Some now,
         expiresAt := Some expires, metadata := md\<rparr>"

text \<open>\<open>processingLockSchema.statics.acquireLock\<close>: the lock document, or \<open>None\<close> for null.\<close>

definition acquireLock ::
  "string \<Rightarrow> string \<Rightarrow> IProcessingLockMetadata \<Rightarrow> int \<Rightarrow> int \<Rightarrow> lock_collection \<Rightarrow>
   IProcessingLock option \<times> lock_collection" where
  "acquireLock k owner md timeoutMs now coll =
     (let expires = now + timeoutMs in
      case findOneAndUpdateUpsert k (acquireFilter now) (acquireUpdate owner now expires md) coll of
        (Inr lock, coll') \<Rightarrow>
          if lockedBy lock = owner then (Some lock, coll') else (None, coll')
      | (Inl code, coll') \<Rightarrow> (None, coll'))"

text \<open>\<open>releaseLock\<close>: \<open>findOneAndUpdate({key}, {$set: {isLocked: false, expiresAt: null,
  metadata: {}}})\<close>; true iff a document with the key was found.\<close>

definition releaseLock :: "string \<Rightarrow> lock_collection \<Rightarrow> bool \<times> lock_collection" where
  "releaseLock k coll =
     (case coll k of
        Some doc \<Rightarrow>
          (True, coll(k \<mapsto> doc\<lparr>isLocked := False, expiresAt := None, metadata := emptyMetadata\<rparr>))
      | None \<Rightarrow> (False, coll))"

definition VIDEO_PROCESSING :: string where
  "VIDEO_PROCESSING = ''video_processing_lock''"

text \<open>The three situations of the claim in which the lock can be taken.\<close>

definition lockAbsent :: "lock_collection \<Rightarrow> string \<Rightarrow> bool" where
  "lockAbsent coll k = (coll k = None)"

definition lockUnlocked :: "lock_collection \<Rightarrow> string \<Rightarrow> bool" where
  "lockUnlocked coll k = (case coll k of None \<Rightarrow> False | Some doc \<Rightarrow> isLocked doc = False)"

definition lockExpired :: "lock_collection \<Rightarrow> string \<Rightarrow> int \<Rightarrow> bool" where
  "lockExpired coll k now =
     (case coll k of None \<Rightarrow> False
      | Some doc \<Rightarrow> (case expiresAt doc of None \<Rightarrow> False | Some e \<Rightarrow> e < now))"

definition heldLock :: "string \<Rightarrow> int \<Rightarrow> int \<Rightarrow> IProcessingLockMetadata \<Rightarrow> IProcessingLock" where
  "heldLock owner now timeoutMs md =
     \<lparr>isLocked = True, lockedBy = owner, lockedAt = Some now,
      expiresAt = Some (now + timeoutMs), metadata = md\<rparr>"

section \<open>Strings\<close>

text \<open>
  JavaScript strings are modelled as \<open>string\<close>; a character stands for the code point of
  the same number, so the model covers the strings of code points below 256.
\<close>

definition digitChar :: "nat \<Rightarrow> char" where
  "digitChar d = ''0123456789'' ! d"

text \<open>\<open>String(n)\<close> and \<open>`${n}`\<close> for a non-negative integer: its decimal digits.\<close>

fun show_nat :: "nat \<Rightarrow> string" where
  "show_nat n = (if n < 10 then [digitChar n] else show_nat (n div 10) @ [digitChar (n mod 10)])"

declare show_nat.simps [simp del]

text \<open>The white space \<open>String.prototype.trim\<close> strips, among the code points below 256:
  TAB, LF, VT, FF, CR, SPACE and NBSP.\<close>

definition isWhiteSpace :: "char \<Rightarrow> bool" where
  "isWhiteSpace c = (of_char c \<in> {9, 10, 11, 12, 13, 32, 160 :: nat})"

definition trim :: "string \<Rightarrow> string" where
  "trim s = rev (dropWhile isWhiteSpace (rev (dropWhile isWhiteSpace s)))"

text \<open>\<open>Array.prototype.join(sep)\<close> on strings.\<close>

fun join :: "string \<Rightarrow> string list \<Rightarrow> string" where
  "join sep [] = []"
| "join sep [x] = x"
| "join sep (x # y # ys) = x @ sep @ join sep (y # ys)"

fun startsWith :: "string \<Rightarrow> string \<Rightarrow> bool" where
  "startsWith s [] = True"
| "startsWith [] (c # cs) = False"
| "startsWith (x # xs) (c # cs) = (x = c \<and> startsWith xs cs)"

text \<open>\<open>String.prototype.includes\<close>: the second string occurs in the first.\<close>

fun includesStr :: "string \<Rightarrow> string \<Rightarrow> bool" where
  "includesStr [] sub = (sub = [])"
| "includesStr (x # xs) sub = (startsWith (x # xs) sub \<or> includesStr xs sub)"

text \<open>\<open>toLowerCase\<close> on code points below 256: A-Z and the Latin-1 capitals (all of
  192..222 but the multiplication sign 215) move up by 32.\<close>

definition lowerChar :: "char \<Rightarrow> char" where
  "lowerChar c =
     (let n = (of_char c :: nat) in
      if (65 \<le> n \<and> n \<le> 90) \<or> (192 \<le> n \<and> n \<le> 222 \<and> n \<noteq> 215) then char_of (n + 32) else c)"

definition toLowerCase :: "string \<Rightarrow> string" where
  "toLowerCase s = map lowerChar s"

text \<open>A thrown JavaScript error: its \<open>message\<close> and its \<open>code\<close> (empty when it has none).\<close>

datatype Error = Error (errMessage: string) (errCode: string)

definition mkError :: "string \<Rightarrow> Error" where
  "mkError msg = Error msg []"

section \<open>Video documents (models/video.model.ts)\<close>

datatype VideoStatus =
  Pending | Decomposing | Generating | Stitching | Audio | Merging | Transcoding
  | Completed | Failed

datatype SegmentStatus = SegPending | SegGenerating | SegCompleted | SegFailed

datatype TransitionType = Crossfade | Cut

record IScene =
  sceneNumber :: nat
  scenePrompt :: string
  visualDescription :: "string option"
  continuityNotes :: "string option"
  narrationText :: "string option"
  startTime :: rat
  endTime :: rat
  transitionType :: TransitionType

record IVideoSegment =
  segmentNumber :: nat
  soraJobId :: "string option"
  seg_status :: SegmentStatus
  filePath :: "string option"
  lastFramePath :: "string option"
  seg_duration :: "rat option"
  retryCount :: nat
  seg_error :: "string option"
  startedAt :: "int option"
  seg_completedAt :: "int option"

record IVideoFile =
  file_path :: string
  file_url :: string
  file_size :: nat
  file_format :: string
  file_duration :: "rat option"

record IVideoFiles =
  stitched_720p :: "IVideoFile option"
  final_720p :: "IVideoFile option"
  final_480p :: "IVideoFile option"
  audio :: "IVideoFile option"
  thumbnail :: "IVideoFile option"

record IVideoMetadata =
  resolution :: "string option"
  fps :: "rat option"
  codec :: "string option"
  bitrate :: "rat option"
  voiceId :: "string option"
  voiceName :: "string option"

record IVideo =
  userId :: string
  title :: string
  originalPrompt :: string
  enhancedPrompt :: "string option"
  targetDuration :: rat
  actualDuration :: "rat option"
  segmentCount :: nat
  segmentDuration :: nat
  scenes :: "IScene list"
  status :: VideoStatus
  progress :: nat
  currentPhase :: "string option"
  currentSegment :: nat
  errorMessage :: "string option"
  segments :: "IVideoSegment list"
  files :: IVideoFiles
  video_metadata :: IVideoMetadata
  completedAt :: "int option"

type_synonym video_collection = "string \<rightharpoonup> IVideo"

text \<open>The name of a status as the string the document stores.\<close>

fun statusName :: "VideoStatus \<Rightarrow> string" where
  "statusName Pending = ''pending''"
| "statusName Decomposing = ''decomposing''"
| "statusName Generating = ''generating''"
| "statusName Stitching = ''stitching''"
| "statusName Audio = ''audio''"
| "statusName Merging = ''merging''"
| "statusName Transcoding = ''transcoding''"
| "statusName Completed = ''completed''"
| "statusName Failed = ''failed''"

text \<open>\<open>Video.findByIdAndUpdate(id, update)\<close>: nothing happens when the id is unknown.\<close>

definition findByIdAndUpdate ::
  "string \<Rightarrow> (IVideo \<Rightarrow> IVideo) \<Rightarrow> video_collection \<Rightarrow> video_collection" where
  "findByIdAndUpdate vid upd coll =
     (case coll vid of None \<Rightarrow> coll | Some v \<Rightarrow> coll(vid \<mapsto> upd v))"

text \<open>The positional update \<open>segments.$\<close>: the first array element with the segment number
  is updated; the list is unchanged when there is none.\<close>

fun updateFirstSegment ::
  "nat \<Rightarrow> (IVideoSegment \<Rightarrow> IVideoSegment) \<Rightarrow> IVideoSegment list \<Rightarrow> IVideoSegment list" where
  "updateFirstSegment n upd [] = []"
| "updateFirstSegment n upd (s # ss) =
     (if segmentNumber s = n then upd s # ss else s # updateFirstSegment n upd ss)"

text \<open>An update with the filter \<open>{_id: videoId, 'segments.segmentNumber': n}\<close>.\<close>

definition updateSegmentOf ::
  "string \<Rightarrow> nat \<Rightarrow> (IVideoSegment \<Rightarrow> IVideoSegment) \<Rightarrow> video_collection \<Rightarrow> video_collection" where
  "updateSegmentOf vid n upd coll =
     findByIdAndUpdate vid (\<lambda>v. v\<lparr>segments := updateFirstSegment n upd (segments v)\<rparr>) coll"

text \<open>The segment the pre-save hook of the video schema pushes:
  \<open>{segmentNumber: i, status: 'pending', retryCount: 0}\<close>.\<close>

definition initSegment :: "nat \<Rightarrow> IVideoSegment" where
  "initSegment i =
     \<lparr>segmentNumber = i, soraJobId = None, seg_status = SegPending, filePath = None,
      lastFramePath = None, seg_duration = None, retryCount = 0, seg_error = None,
      startedAt = None, seg_completedAt = None\<rparr>"

section \<open>Storage service (services/storage.service.ts)\<close>

record VideoPathsResult =
  paths_videoDir :: string
  paths_segmentsDir :: string
  paths_framesDir :: string
  paths_stitched720p :: string
  paths_final720p :: string
  paths_final480p :: string
  paths_audio :: string
  paths_thumbnail :: string

text \<open>
  The file system is outside the program: what the storage service answers is a parameter
  of the model. The operations that can reject (\<open>fs.mkdir\<close>, \<open>fs.stat\<close>) answer with an
  error or a value; \<open>getExistingSegmentPaths\<close> and \<open>fileExists\<close> catch their errors.
\<close>

record StorageService =
  createVideoDirectories :: "string \<Rightarrow> string \<Rightarrow> Error + VideoPathsResult"
  getVideoPaths :: "string \<Rightarrow> string \<Rightarrow> VideoPathsResult"
  getSegmentPath :: "string \<Rightarrow> string \<Rightarrow> nat \<Rightarrow> string"
  getFramePath :: "string \<Rightarrow> string \<Rightarrow> nat \<Rightarrow> string"
  getExistingSegmentPaths :: "string \<Rightarrow> string \<Rightarrow> string list"
  getFileSize :: "string \<Rightarrow> Error + nat"
  fileExists :: "string \<Rightarrow> bool"
  getPublicUrl :: "string \<Rightarrow> string"

text \<open>
  The storage service builds every path with \<open>path.join\<close>, which accepts strings only:
  given any other value it throws a \<open>TypeError\<close> (code \<open>ERR_INVALID_ARG_TYPE\<close>) before
  anything is read. A caller hands over the user id either as a string
  (\<open>video.userId.toString()\<close>, as \<open>processVideo\<close> does) or as the document's \<open>ObjectId\<close>
  itself. In \<open>getVideoPaths\<close> and in the first line of \<open>getExistingSegmentPaths\<close> the
  \<open>path.join\<close> is outside any \<open>try\<close>. The runtime's message puts the word path in
  quotes; they are left out here.
\<close>

datatype UserIdArg = IdString string | IdObject string

definition pathTypeError :: Error where
  "pathTypeError =
     Error ''The path argument must be of type string. Received an instance of ObjectId''
       ''ERR_INVALID_ARG_TYPE''"

definition getExistingSegmentPathsFor ::
  "StorageService \<Rightarrow> UserIdArg \<Rightarrow> string \<Rightarrow> Error + string list" where
  "getExistingSegmentPathsFor st u vid =
     (case u of
        IdString uid \<Rightarrow> Inr (getExistingSegmentPaths st uid vid)
      | IdObject oid \<Rightarrow> Inl pathTypeError)"

definition getVideoPathsFor ::
  "StorageService \<Rightarrow> UserIdArg \<Rightarrow> string \<Rightarrow> Error + VideoPathsResult" where
  "getVideoPathsFor st u vid =
     (case u of
        IdString uid \<Rightarrow> Inr (getVideoPaths st uid vid)
      | IdObject oid \<Rightarrow> Inl pathTypeError)"

section \<open>Recovery service (utils/recovery.ts)\<close>

record RecoveryResult =
  recovered :: bool
  rr_message :: string
  resumeFrom :: "nat option"

text \<open>The loop of \<open>recoverFromGeneration\<close>: \<open>i\<close> is the loop index, \<open>r\<close> the variable
  \<open>resumeFrom\<close>; the loop breaks at the first segment that is not completed.\<close>

function resumeLoop :: "IVideoSegment list \<Rightarrow> nat \<Rightarrow> nat \<Rightarrow> nat" where
  "resumeLoop segs i r =
     (if i < length segs then
        (if seg_status (segs ! i) = SegCompleted then resumeLoop segs (i + 1) (i + 2) else r)
      else r)"
  by pat_completeness auto
termination
  by (relation "measure (\<lambda>(segs, i, r). length segs - i)") auto

declare resumeLoop.simps [simp del]

text \<open>
  The three recovery paths and \<open>recoverVideo\<close>: a decision, or the error the call
  rejects with. \<open>recoverFromStitching\<close> and \<open>recoverFromPostProcessing\<close> pass
  \<open>video.userId\<close>, the document's \<open>ObjectId\<close>, to the storage service as it is.
\<close>

definition recoverFromGeneration ::
  "string \<Rightarrow> IVideo \<Rightarrow> video_collection \<Rightarrow> (Error + RecoveryResult) \<times> video_collection" where
  "recoverFromGeneration vid video coll =
     (let r = resumeLoop (segments video) 0 1 in
      (Inr \<lparr>recovered = True,
            rr_message = ''Marked for resume from segment '' @ show_nat r,
            resumeFrom = Some r\<rparr>,
       findByIdAndUpdate vid
         (\<lambda>v. v\<lparr>status := Pending, currentSegment := r, errorMessage := None\<rparr>) coll))"

definition recoverFromStitching ::
  "StorageService \<Rightarrow> string \<Rightarrow> IVideo \<Rightarrow> video_collection \<Rightarrow>
   (Error + RecoveryResult) \<times> video_collection" where
  "recoverFromStitching st vid video coll =
     (case getExistingSegmentPathsFor st (IdObject (userId video)) vid of
        Inl e \<Rightarrow> (Inl e, coll)
      | Inr segmentPaths \<Rightarrow>
          if length segmentPaths = segmentCount video then
            (Inr \<lparr>recovered = True, rr_message = ''Ready to retry stitching'',
                  resumeFrom = None\<rparr>,
             findByIdAndUpdate vid
               (\<lambda>v. v\<lparr>status := Pending, currentPhase := Some ''stitching'',
                       errorMessage := None\<rparr>)
               coll)
          else recoverFromGeneration vid video coll)"

definition recoverFromPostProcessing ::
  "StorageService \<Rightarrow> string \<Rightarrow> IVideo \<Rightarrow> video_collection \<Rightarrow>
   (Error + RecoveryResult) \<times> video_collection" where
  "recoverFromPostProcessing st vid video coll =
     (case getVideoPathsFor st (IdObject (userId video)) vid of
        Inl e \<Rightarrow> (Inl e, coll)
      | Inr paths \<Rightarrow>
          if fileExists st (paths_stitched720p paths) then
            (Inr \<lparr>recovered = True, rr_message = ''Ready to retry audio generation'',
                  resumeFrom = None\<rparr>,
             findByIdAndUpdate vid
               (\<lambda>v. v\<lparr>status := Pending, currentPhase := Some ''audio'',
                       errorMessage := None\<rparr>)
               coll)
          else recoverFromStitching st vid video coll)"

definition recoverVideo ::
  "StorageService \<Rightarrow> string \<Rightarrow> video_collection \<Rightarrow>
   (Error + RecoveryResult) \<times> video_collection" where
  "recoverVideo st vid coll =
     (case coll vid of
        None \<Rightarrow>
          (Inr \<lparr>recovered = False, rr_message = ''Video not found'', resumeFrom = None\<rparr>, coll)
      | Some video \<Rightarrow>
          (case status video of
             Generating \<Rightarrow> recoverFromGeneration vid video coll
           | Stitching \<Rightarrow> recoverFromStitching st vid video coll
           | Audio \<Rightarrow> recoverFromPostProcessing st vid video coll
           | Merging \<Rightarrow> recoverFromPostProcessing st vid video coll
           | Transcoding \<Rightarrow> recoverFromPostProcessing st vid video coll
           | _ \<Rightarrow>
               (Inr \<lparr>recovered = False, rr_message = ''Video not in recoverable state'',
                     resumeFrom = None\<rparr>, coll)))"

text \<open>The largest prefix of the segments whose status is completed.\<close>

definition completedPrefix :: "IVideoSegment list \<Rightarrow> IVideoSegment list" where
  "completedPrefix segs = takeWhile (\<lambda>s. seg_status s = SegCompleted) segs"

section \<open>The world of a run\<close>

text \<open>
  What the orchestrator calls outside itself, in the order of the calls. \<open>EvProgress\<close> is
  the line \<open>updateProgress\<close> logs for each status it persists; the other events are
  the calls to the provider, to ffmpeg and to the timer.
\<close>

datatype event =
    EvCreateDirectories
  | EvDecompose
  | EvProgress VideoStatus nat
  | EvGenerateSegment nat nat
  | EvExtractLastFrame nat
  | EvSleep nat
  | EvStitch "string list"
  | EvNarrationScript
  | EvSynthesize string
  | EvMerge
  | EvThumbnail
  | EvProbe
  | EvTranscode

record world =
  videos :: video_collection
  locks :: lock_collection
  trace :: "event list"

text \<open>A computation that may throw: the error or the value, and the world after it.\<close>

type_synonym 'a proc = "world \<Rightarrow> (Error + 'a) \<times> world"

definition ret :: "'a \<Rightarrow> 'a proc" where
  "ret x w = (Inr x, w)"

definition throwE :: "Error \<Rightarrow> 'a proc" where
  "throwE e w = (Inl e, w)"

text \<open>Sequencing: an error ends the computation, a value goes to the continuation.\<close>

fun continueWith :: "('a \<Rightarrow> 'b proc) \<Rightarrow> (Error + 'a) \<times> world \<Rightarrow> (Error + 'b) \<times> world" where
  "continueWith f (Inl e, w') = (Inl e, w')"
| "continueWith f (Inr x, w') = f x w'"

definition bindE :: "'a proc \<Rightarrow> ('a \<Rightarrow> 'b proc) \<Rightarrow> 'b proc" where
  "bindE m f w = continueWith f (m w)"

definition thenE :: "'a proc \<Rightarrow> 'b proc \<Rightarrow> 'b proc" where
  "thenE m n = bindE m (\<lambda>_. n)"

text \<open>A store write (the store is taken to be reliable: a write does not throw).\<close>

definition liftW :: "(world \<Rightarrow> world) \<Rightarrow> unit proc" where
  "liftW f w = (Inr (), f w)"

definition logEvent :: "event \<Rightarrow> world \<Rightarrow> world" where
  "logEvent ev w = w\<lparr>trace := trace w @ [ev]\<rparr>"

text \<open>A call to an external service with the given outcome.\<close>

definition callExt :: "event \<Rightarrow> (Error + 'a) \<Rightarrow> 'a proc" where
  "callExt ev outcome w = (outcome, logEvent ev w)"

definition sleep :: "nat \<Rightarrow> world \<Rightarrow> world" where
  "sleep ms w = logEvent (EvSleep ms) w"

section \<open>External services\<close>

datatype GenStatus = GenPending | GenCompleted | GenFailed

record SegmentGenerationResult =
  gen_jobId :: string
  gen_status :: GenStatus
  gen_error :: "string option"

text \<open>
  What one call of \<open>generateAndSaveSegment\<close> does, seen from its caller: starting the job
  throws, or the job starts (the callback receives the job id) and then polling and
  saving either throw or return a result carrying that job id.
\<close>

datatype GenerationOutcome =
    StartThrows Error
  | JobStarted string "Error + SegmentGenerationResult"

record VideoProbe =
  probe_duration :: rat
  probe_width :: nat
  probe_height :: nat
  probe_fps :: rat
  probe_codec :: string

text \<open>
  The providers and ffmpeg are outside the program; their answers are parameters.
  \<open>generateAndSaveSegment n a\<close> is the outcome of the \<open>a\<close>-th call for segment \<open>n\<close>
  (whatever prompt and continuity hint it is given); \<open>llmScenes\<close> is the scene list
  \<open>decomposePrompt\<close> obtains from the model's answer, or the error it catches.
\<close>

record Services =
  llmScenes :: "string \<Rightarrow> rat \<Rightarrow> Error + IScene list"
  generateAndSaveSegment :: "nat \<Rightarrow> nat \<Rightarrow> GenerationOutcome"
  extractLastFrame :: "string \<Rightarrow> string \<Rightarrow> Error + string"
  stitchWithCrossfade :: "string list \<Rightarrow> string \<Rightarrow> Error + unit"
  generateNarrationScript :: "string \<Rightarrow> IScene list \<Rightarrow> rat \<Rightarrow> Error + string"
  generateNarration :: "string \<Rightarrow> string \<Rightarrow> Error + unit"
  mergeAudioVideoFiles :: "string \<Rightarrow> string \<Rightarrow> string \<Rightarrow> Error + unit"
  generateThumbnail :: "string \<Rightarrow> string \<Rightarrow> Error + unit"
  getVideoMetadata :: "string \<Rightarrow> Error + VideoProbe"
  transcodeResolution :: "string \<Rightarrow> string \<Rightarrow> nat \<Rightarrow> nat \<Rightarrow> Error + unit"

text \<open>\<open>config.duration.maxRetries\<close>, \<open>config.duration.segment\<close> (a positive number of
  seconds, 12 by default) and \<open>config.processing.lockTimeoutMs\<close>.\<close>

record Config =
  cfg_maxRetries :: nat
  cfg_segment :: nat
  cfg_lockTimeoutMs :: int

text \<open>The points at which the claims let another request run between the steps of a run:
  before a phase starts and before a segment starts.\<close>

datatype boundary = BeforePhase VideoStatus | BeforeSegment nat

text \<open>
  The environment of a run: the services, the configuration, the clock reading
  (\<open>Date.now()\<close>; one reading stands for all of a run's, no claim compares two) and what
  other requests do to the world at each boundary.
\<close>

record Env =
  env_services :: Services
  env_storage :: StorageService
  env_config :: Config
  env_now :: int
  env_interference :: "boundary \<Rightarrow> world \<Rightarrow> world"

definition interfere :: "Env \<Rightarrow> boundary \<Rightarrow> unit proc" where
  "interfere env b = liftW (env_interference env b)"

section \<open>Scene decomposition (services/scene-decomposition.service.ts)\<close>

record SceneDecompositionResult =
  res_scenes :: "IScene list"
  res_totalDuration :: rat
  res_segmentCount :: nat

text \<open>\<open>targetDuration === 5 ? 5 : config.duration.segment\<close>.\<close>

definition segmentDurationFor :: "Config \<Rightarrow> rat \<Rightarrow> nat" where
  "segmentDurationFor cfg d = (if d = 5 then 5 else cfg_segment cfg)"

text \<open>\<open>Math.ceil(targetDuration / segmentDuration)\<close>, for a positive segment duration.\<close>

definition segmentCountFor :: "Config \<Rightarrow> rat \<Rightarrow> nat" where
  "segmentCountFor cfg d = nat \<lceil>d / of_nat (segmentDurationFor cfg d)\<rceil>"

definition decomposePrompt :: "Env \<Rightarrow> string \<Rightarrow> rat \<Rightarrow> Error + SceneDecompositionResult" where
  "decomposePrompt env prompt d =
     (case llmScenes (env_services env) prompt d of
        Inr scs \<Rightarrow>
          Inr \<lparr>res_scenes = scs, res_totalDuration = d,
               res_segmentCount = segmentCountFor (env_config env) d\<rparr>
      | Inl e \<Rightarrow> Inl (mkError (''Scene decomposition failed: '' @ errMessage e)))"

definition fallbackScene :: "string \<Rightarrow> nat \<Rightarrow> nat \<Rightarrow> nat \<Rightarrow> IScene" where
  "fallbackScene prompt segDuration segCount i =
     \<lparr>sceneNumber = i + 1,
      scenePrompt = prompt @ '' - Scene '' @ show_nat (i + 1) @ '' of '' @ show_nat segCount,
      visualDescription = Some [],
      continuityNotes = Some (if i > 0 then ''Continue from previous scene'' else []),
      narrationText = None,
      startTime = of_nat (i * segDuration),
      endTime = of_nat ((i + 1) * segDuration),
      transitionType = Crossfade\<rparr>"

definition generateFallbackScenes :: "Config \<Rightarrow> string \<Rightarrow> rat \<Rightarrow> SceneDecompositionResult" where
  "generateFallbackScenes cfg prompt d =
     (let segDuration = segmentDurationFor cfg d;
          segCount = segmentCountFor cfg d
      in \<lparr>res_scenes = map (fallbackScene prompt segDuration segCount) [0..<segCount],
          res_totalDuration = d, res_segmentCount = segCount\<rparr>)"

section \<open>Processing service (services/processing.service.ts)\<close>

text \<open>\<open>updateProgress\<close>: \<open>currentPhase: message || phase\<close>; \<open>currentSegment\<close> only when
  given; \<open>completedAt\<close> when the phase is completed.\<close>

definition progressUpdate ::
  "VideoStatus \<Rightarrow> nat \<Rightarrow> string \<Rightarrow> nat option \<Rightarrow> int \<Rightarrow> IVideo \<Rightarrow> IVideo" where
  "progressUpdate phase prog message cur now v =
     (let v1 = v\<lparr>status := phase, progress := prog,
                 currentPhase := Some (if message = [] then statusName phase else message)\<rparr>;
          v2 = (case cur of None \<Rightarrow> v1 | Some c \<Rightarrow> v1\<lparr>currentSegment := c\<rparr>)
      in if phase = Completed then v2\<lparr>completedAt := Some now\<rparr> else v2)"

definition updateProgress ::
  "Env \<Rightarrow> string \<Rightarrow> VideoStatus \<Rightarrow> nat \<Rightarrow> string \<Rightarrow> nat option \<Rightarrow> world \<Rightarrow> world" where
  "updateProgress env vid phase prog message cur w =
     logEvent (EvProgress phase prog)
       (w\<lparr>videos := findByIdAndUpdate vid (progressUpdate phase prog message cur (env_now env))
                      (videos w)\<rparr>)"

definition updateSegmentStatus ::
  "string \<Rightarrow> nat \<Rightarrow> (IVideoSegment \<Rightarrow> IVideoSegment) \<Rightarrow> world \<Rightarrow> world" where
  "updateSegmentStatus vid n upd w = w\<lparr>videos := updateSegmentOf vid n upd (videos w)\<rparr>"

definition handleProcessingError :: "string \<Rightarrow> Error \<Rightarrow> world \<Rightarrow> world" where
  "handleProcessingError vid e w =
     w\<lparr>videos := findByIdAndUpdate vid
                    (\<lambda>v. v\<lparr>status := Failed, errorMessage := Some (errMessage e)\<rparr>) (videos w)\<rparr>"

text \<open>\<open>lockService.acquireVideoProcessingLock\<close> and \<open>releaseVideoProcessingLock\<close>.\<close>

definition acquireVideoProcessingLock ::
  "Env \<Rightarrow> string \<Rightarrow> IProcessingLockMetadata \<Rightarrow> world \<Rightarrow> IProcessingLock option \<times> world" where
  "acquireVideoProcessingLock env owner md w =
     (case acquireLock VIDEO_PROCESSING owner md (cfg_lockTimeoutMs (env_config env))
             (env_now env) (locks w) of
        (lock, coll) \<Rightarrow> (lock, w\<lparr>locks := coll\<rparr>))"

definition releaseVideoProcessingLock :: "world \<Rightarrow> world" where
  "releaseVideoProcessingLock w = w\<lparr>locks := snd (releaseLock VIDEO_PROCESSING (locks w))\<rparr>"

text \<open>\<open>video.enhancedPrompt || video.originalPrompt\<close>.\<close>

definition promptOf :: "IVideo \<Rightarrow> string" where
  "promptOf video =
     (case enhancedPrompt video of
        None \<Rightarrow> originalPrompt video
      | Some p \<Rightarrow> if p = [] then originalPrompt video else p)"

text \<open>Phase 1. \<open>decomposeScenes\<close> falls back to \<open>generateFallbackScenes\<close> when
  \<open>decomposePrompt\<close> throws, so it always yields scenes.\<close>

definition storeScenes :: "string \<Rightarrow> SceneDecompositionResult \<Rightarrow> world \<Rightarrow> world" where
  "storeScenes vid result w =
     w\<lparr>videos := findByIdAndUpdate vid
                    (\<lambda>v. v\<lparr>scenes := res_scenes result,
                            segmentCount := res_segmentCount result\<rparr>) (videos w)\<rparr>"

definition decomposeScenes :: "Env \<Rightarrow> string \<Rightarrow> IVideo \<Rightarrow> (IScene list) proc" where
  "decomposeScenes env vid video w =
     (let w1 = logEvent EvDecompose w in
      case decomposePrompt env (promptOf video) (targetDuration video) of
        Inr result \<Rightarrow> (Inr (res_scenes result), storeScenes vid result w1)
      | Inl e \<Rightarrow>
          (let result = generateFallbackScenes (env_config env) (promptOf video)
                          (targetDuration video)
           in (Inr (res_scenes result), storeScenes vid result w1)))"

text \<open>Phase 2. One attempt of \<open>generateSegmentWithRetry\<close>, the body of its loop: \<open>Some\<close> is
  a \<open>return\<close>, \<open>None\<close> goes on to the next attempt.\<close>

datatype SegmentOutcome = SegmentCompleted | SegmentFailed string

definition attemptThrew ::
  "Env \<Rightarrow> string \<Rightarrow> nat \<Rightarrow> nat \<Rightarrow> Error \<Rightarrow> world \<Rightarrow> SegmentOutcome option \<times> world" where
  "attemptThrew env vid segNo attempt e w =
     (if attempt = cfg_maxRetries (env_config env) then
        (Some (SegmentFailed (errMessage e)),
         updateSegmentStatus vid segNo
           (\<lambda>s. s\<lparr>seg_status := SegFailed, seg_error := Some (errMessage e)\<rparr>) w)
      else (None, sleep (5000 * attempt) w))"

definition segmentAttempt ::
  "Env \<Rightarrow> nat \<Rightarrow> string \<Rightarrow> string \<Rightarrow> nat \<Rightarrow> world \<Rightarrow> SegmentOutcome option \<times> world" where
  "segmentAttempt env segNo outputPath vid attempt w =
     (let w1 = updateSegmentStatus vid segNo
                 (\<lambda>s. s\<lparr>seg_status := SegGenerating, retryCount := attempt - 1,
                         startedAt := Some (env_now env)\<rparr>) w;
          w2 = logEvent (EvGenerateSegment segNo attempt) w1
      in case generateAndSaveSegment (env_services env) segNo attempt of
           StartThrows e \<Rightarrow> attemptThrew env vid segNo attempt e w2
         | JobStarted jobId r \<Rightarrow>
             (let w3 = updateSegmentStatus vid segNo (\<lambda>s. s\<lparr>soraJobId := Some jobId\<rparr>) w2
              in case r of
                   Inl e \<Rightarrow> attemptThrew env vid segNo attempt e w3
                 | Inr result \<Rightarrow>
                     if gen_status result = GenCompleted then
                       (Some SegmentCompleted,
                        updateSegmentStatus vid segNo
                          (\<lambda>s. s\<lparr>seg_status := SegCompleted, filePath := Some outputPath,
                                  soraJobId := Some (gen_jobId result),
                                  seg_completedAt := Some (env_now env)\<rparr>) w3)
                     else if attempt < cfg_maxRetries (env_config env) then
                       (None, sleep (5000 * attempt) w3)
                     else (None, w3)))"

text \<open>After the body of a loop: a \<open>return\<close> ends the loop, otherwise the next iteration
  runs.\<close>

fun unlessReturned :: "(world \<Rightarrow> 'r \<times> world) \<Rightarrow> 'r option \<times> world \<Rightarrow> 'r \<times> world" where
  "unlessReturned next (Some r, w') = (r, w')"
| "unlessReturned next (None, w') = next w'"

function generateSegmentLoop ::
  "Env \<Rightarrow> nat \<Rightarrow> string \<Rightarrow> string \<Rightarrow> nat \<Rightarrow> world \<Rightarrow> SegmentOutcome \<times> world" where
  "generateSegmentLoop env segNo outputPath vid attempt w =
     (if attempt \<le> cfg_maxRetries (env_config env) then
        unlessReturned (\<lambda>w'. generateSegmentLoop env segNo outputPath vid (attempt + 1) w')
          (segmentAttempt env segNo outputPath vid attempt w)
      else (SegmentFailed ''Max retries exceeded'', w))"
  by pat_completeness auto
termination
  by (relation "measure (\<lambda>(env, segNo, outputPath, vid, attempt, w).
        cfg_maxRetries (env_config env) + 1 - attempt)") auto

declare generateSegmentLoop.simps [simp del]

text \<open>The scene prompt, the previous frame and the duration go to the provider, whose
  answer is the parameter \<open>generateAndSaveSegment\<close>.\<close>

definition generateSegmentWithRetry ::
  "Env \<Rightarrow> string \<Rightarrow> nat \<Rightarrow> string \<Rightarrow> string option \<Rightarrow> string \<Rightarrow> rat \<Rightarrow> world \<Rightarrow>
   SegmentOutcome \<times> world" where
  "generateSegmentWithRetry env prompt segNo outputPath previousFramePath vid duration w =
     generateSegmentLoop env segNo outputPath vid 1 w"

text \<open>\<open>Math.round(5 + 65 * ((i + 0.5) / n))\<close> in exact arithmetic (\<open>Math.round x\<close> is
  \<open>\<lfloor>x + 1/2\<rfloor>\<close>); the rounding of the floating-point operations is not modelled.\<close>

definition segmentProgress :: "nat \<Rightarrow> nat \<Rightarrow> nat" where
  "segmentProgress i n =
     nat \<lfloor>5 + 65 * ((of_nat i + 1 / 2) / of_nat n) + (1 / 2 :: rat)\<rfloor>"

definition segmentFailedError :: "Env \<Rightarrow> nat \<Rightarrow> Error" where
  "segmentFailedError env segNo =
     mkError (''Segment '' @ show_nat segNo @ '' failed after ''
              @ show_nat (cfg_maxRetries (env_config env)) @ '' retries'')"

text \<open>The body of the loop of \<open>generateAllSegments\<close> for index \<open>i\<close>: it throws, or yields
  the \<open>previousFramePath\<close> for the next iteration.\<close>

definition afterSegment ::
  "Env \<Rightarrow> IScene list \<Rightarrow> string \<Rightarrow> string \<Rightarrow> nat \<Rightarrow> string option \<Rightarrow> (string option) proc" where
  "afterSegment env scs uid vid i previousFramePath =
     (let segNo = i + 1;
          segmentPath = getSegmentPath (env_storage env) uid vid segNo;
          framePath = getFramePath (env_storage env) uid vid segNo
      in if i < length scs - 1 then
           bindE (callExt (EvExtractLastFrame segNo)
                    (extractLastFrame (env_services env) segmentPath framePath))
             (\<lambda>p. thenE
                (liftW (updateSegmentStatus vid segNo (\<lambda>s. s\<lparr>lastFramePath := Some framePath\<rparr>)))
                (ret (Some p)))
         else ret previousFramePath)"

fun afterGeneration ::
  "Env \<Rightarrow> IScene list \<Rightarrow> string \<Rightarrow> string \<Rightarrow> nat \<Rightarrow> string option \<Rightarrow>
   SegmentOutcome \<times> world \<Rightarrow> (Error + string option) \<times> world" where
  "afterGeneration env scs uid vid i previousFramePath (SegmentFailed msg, w') =
     (Inl (segmentFailedError env (i + 1)), w')"
| "afterGeneration env scs uid vid i previousFramePath (SegmentCompleted, w') =
     afterSegment env scs uid vid i previousFramePath w'"

definition segmentStep ::
  "Env \<Rightarrow> IScene list \<Rightarrow> string \<Rightarrow> string \<Rightarrow> nat \<Rightarrow> string option \<Rightarrow> (string option) proc" where
  "segmentStep env scs uid vid i previousFramePath w =
     (let scene = scs ! i;
          segNo = i + 1;
          segmentPath = getSegmentPath (env_storage env) uid vid segNo;
          duration = endTime scene - startTime scene
      in afterGeneration env scs uid vid i previousFramePath
           (generateSegmentWithRetry env (scenePrompt scene) segNo segmentPath
              previousFramePath vid duration w))"

definition segmentIteration ::
  "Env \<Rightarrow> IScene list \<Rightarrow> string \<Rightarrow> string \<Rightarrow> nat \<Rightarrow> string option \<Rightarrow> (string option) proc" where
  "segmentIteration env scs uid vid i previousFramePath =
     thenE (interfere env (BeforeSegment (i + 1)))
       (thenE (liftW (updateProgress env vid Generating (segmentProgress i (length scs))
                 (''Generating segment '' @ show_nat (i + 1) @ '' of '' @ show_nat (length scs))
                 (Some (i + 1))))
          (segmentStep env scs uid vid i previousFramePath))"

function generateAllSegmentsLoop ::
  "Env \<Rightarrow> IScene list \<Rightarrow> string \<Rightarrow> string \<Rightarrow> nat \<Rightarrow> string option \<Rightarrow> unit proc" where
  "generateAllSegmentsLoop env scs uid vid i previousFramePath w =
     (if i < length scs then
        continueWith
          (\<lambda>previousFramePath' w'.
             generateAllSegmentsLoop env scs uid vid (i + 1) previousFramePath' w')
          (segmentIteration env scs uid vid i previousFramePath w)
      else (Inr (), w))"
  by pat_completeness auto
termination
  by (relation "measure (\<lambda>(env, scs, uid, vid, i, previousFramePath, w). length scs - i)") auto

declare generateAllSegmentsLoop.simps [simp del]

definition generateAllSegments ::
  "Env \<Rightarrow> IScene list \<Rightarrow> string \<Rightarrow> string \<Rightarrow> unit proc" where
  "generateAllSegments env scs uid vid = generateAllSegmentsLoop env scs uid vid 0 None"

text \<open>A read of the disk that may reject (\<open>fs.stat\<close>).\<close>

definition fromOutcome :: "(Error + 'a) \<Rightarrow> 'a proc" where
  "fromOutcome outcome w = (outcome, w)"

definition setFiles :: "string \<Rightarrow> (IVideoFiles \<Rightarrow> IVideoFiles) \<Rightarrow> world \<Rightarrow> world" where
  "setFiles vid upd w =
     w\<lparr>videos := findByIdAndUpdate vid (\<lambda>v. v\<lparr>files := upd (files v)\<rparr>) (videos w)\<rparr>"

definition fileInfo :: "Env \<Rightarrow> string \<Rightarrow> nat \<Rightarrow> string \<Rightarrow> rat option \<Rightarrow> IVideoFile" where
  "fileInfo env p sz fmt dur =
     \<lparr>file_path = p, file_url = getPublicUrl (env_storage env) p, file_size = sz,
      file_format = fmt, file_duration = dur\<rparr>"

text \<open>Phase 3.\<close>

definition stitchSegments :: "Env \<Rightarrow> VideoPathsResult \<Rightarrow> string \<Rightarrow> string \<Rightarrow> unit proc" where
  "stitchSegments env paths uid vid =
     (let segmentPaths = getExistingSegmentPaths (env_storage env) uid vid in
      if length segmentPaths = 0 then throwE (mkError ''No segments found to stitch'')
      else
        thenE (callExt (EvStitch segmentPaths)
                 (stitchWithCrossfade (env_services env) segmentPaths (paths_stitched720p paths)))
          (bindE (fromOutcome (getFileSize (env_storage env) (paths_stitched720p paths)))
             (\<lambda>fileSize. liftW (setFiles vid
                (\<lambda>f. f\<lparr>stitched_720p :=
                         Some (fileInfo env (paths_stitched720p paths) fileSize ''mp4'' None)\<rparr>)))))"

text \<open>Phase 4. \<open>scenes.some(s => s.narrationText && s.narrationText.trim())\<close> and the
  script built from the scenes' own narration.\<close>

definition sceneNarration :: "IScene \<Rightarrow> string" where
  "sceneNarration s = (case narrationText s of None \<Rightarrow> [] | Some t \<Rightarrow> trim t)"

definition hasUserNarration :: "IScene list \<Rightarrow> bool" where
  "hasUserNarration scs =
     list_ex (\<lambda>s. case narrationText s of None \<Rightarrow> False
                  | Some t \<Rightarrow> t \<noteq> [] \<and> trim t \<noteq> []) scs"

definition userNarrationScript :: "IScene list \<Rightarrow> string" where
  "userNarrationScript scs =
     join '' '' (filter (\<lambda>text. length text > 0) (map sceneNarration scs))"

definition narrationScript :: "Env \<Rightarrow> IVideo \<Rightarrow> IScene list \<Rightarrow> string proc" where
  "narrationScript env video scs =
     (if hasUserNarration scs then ret (userNarrationScript scs)
      else callExt EvNarrationScript
             (generateNarrationScript (env_services env) (promptOf video) scs
                (targetDuration video)))"

definition generateAudio ::
  "Env \<Rightarrow> string \<Rightarrow> IVideo \<Rightarrow> IScene list \<Rightarrow> VideoPathsResult \<Rightarrow> unit proc" where
  "generateAudio env vid video scs paths =
     bindE (narrationScript env video scs)
       (\<lambda>script.
          thenE (callExt (EvSynthesize script)
                   (generateNarration (env_services env) script (paths_audio paths)))
            (bindE (fromOutcome (getFileSize (env_storage env) (paths_audio paths)))
               (\<lambda>fileSize. liftW (setFiles vid
                  (\<lambda>f. f\<lparr>audio := Some (fileInfo env (paths_audio paths) fileSize ''mp3'' None)\<rparr>)))))"

text \<open>Phase 5. The three reads of \<open>Promise.all\<close> are taken in the order written.\<close>

definition recordFinal ::
  "Env \<Rightarrow> string \<Rightarrow> VideoPathsResult \<Rightarrow> nat \<Rightarrow> nat \<Rightarrow> VideoProbe \<Rightarrow> world \<Rightarrow> world" where
  "recordFinal env vid paths videoSize thumbSize m w =
     w\<lparr>videos := findByIdAndUpdate vid
          (\<lambda>v. v\<lparr>files := (files v)
                    \<lparr>final_720p := Some (fileInfo env (paths_final720p paths) videoSize ''mp4''
                                     (Some (probe_duration m))),
                     thumbnail := Some (fileInfo env (paths_thumbnail paths) thumbSize ''jpg''
                                     None)\<rparr>,
                  actualDuration := Some (probe_duration m),
                  video_metadata := (video_metadata v)
                    \<lparr>resolution := Some (show_nat (probe_width m) @ ''x''
                                          @ show_nat (probe_height m)),
                     fps := Some (probe_fps m), codec := Some (probe_codec m)\<rparr>\<rparr>)
          (videos w)\<rparr>"

definition mergeAudioVideo :: "Env \<Rightarrow> string \<Rightarrow> VideoPathsResult \<Rightarrow> unit proc" where
  "mergeAudioVideo env vid paths =
     thenE (callExt EvMerge
              (mergeAudioVideoFiles (env_services env) (paths_stitched720p paths)
                 (paths_audio paths) (paths_final720p paths)))
       (thenE (callExt EvThumbnail
                 (generateThumbnail (env_services env) (paths_final720p paths)
                    (paths_thumbnail paths)))
          (bindE (fromOutcome (getFileSize (env_storage env) (paths_final720p paths)))
             (\<lambda>videoSize.
                bindE (fromOutcome (getFileSize (env_storage env) (paths_thumbnail paths)))
                  (\<lambda>thumbSize.
                     bindE (callExt EvProbe
                              (getVideoMetadata (env_services env) (paths_final720p paths)))
                       (\<lambda>m. liftW (recordFinal env vid paths videoSize thumbSize m))))))"

text \<open>Phase 6.\<close>

definition transcodeResolutions :: "Env \<Rightarrow> string \<Rightarrow> VideoPathsResult \<Rightarrow> unit proc" where
  "transcodeResolutions env vid paths =
     thenE (callExt EvTranscode
              (transcodeResolution (env_services env) (paths_final720p paths)
                 (paths_final480p paths) 854 480))
       (bindE (fromOutcome (getFileSize (env_storage env) (paths_final480p paths)))
          (\<lambda>fileSize. liftW (setFiles vid
             (\<lambda>f. f\<lparr>final_480p :=
                      Some (fileInfo env (paths_final480p paths) fileSize ''mp4'' None)\<rparr>))))"

text \<open>The \<open>try\<close> block of \<open>processVideo\<close>, split at the phase that generates the segments.\<close>

definition decompositionPhase :: "Env \<Rightarrow> string \<Rightarrow> IVideo \<Rightarrow> (IScene list) proc" where
  "decompositionPhase env vid video =
     thenE (interfere env (BeforePhase Decomposing))
       (if length (scenes video) = 0 then
          thenE (liftW (updateProgress env vid Decomposing 0 ''Decomposing prompt into scenes''
                          None))
            (bindE (decomposeScenes env vid video)
               (\<lambda>scs. thenE (liftW (updateProgress env vid Decomposing 5 ''Scenes decomposed''
                                      None))
                         (ret scs)))
        else
          thenE (liftW (updateProgress env vid Decomposing 5 ''Using custom scenes'' None))
            (ret (scenes video)))"

definition generatingPhase :: "Env \<Rightarrow> string \<Rightarrow> IVideo \<Rightarrow> IScene list \<Rightarrow> unit proc" where
  "generatingPhase env vid video scs =
     thenE (interfere env (BeforePhase Generating))
       (thenE (liftW (updateProgress env vid Generating 5 ''Starting segment generation'' None))
          (thenE (generateAllSegments env scs (userId video) vid)
             (liftW (updateProgress env vid Generating 70 ''All segments generated'' None))))"

definition laterPhases ::
  "Env \<Rightarrow> string \<Rightarrow> IVideo \<Rightarrow> IScene list \<Rightarrow> VideoPathsResult \<Rightarrow> unit proc" where
  "laterPhases env vid video scs paths =
     thenE (interfere env (BeforePhase Stitching))
    (thenE (liftW (updateProgress env vid Stitching 70 ''Stitching video segments'' None))
    (thenE (stitchSegments env paths (userId video) vid)
    (thenE (liftW (updateProgress env vid Stitching 80 ''Video stitched'' None))
    (thenE (interfere env (BeforePhase Audio))
    (thenE (liftW (updateProgress env vid Audio 80 ''Generating narration'' None))
    (thenE (generateAudio env vid video scs paths)
    (thenE (liftW (updateProgress env vid Audio 90 ''Audio generated'' None))
    (thenE (interfere env (BeforePhase Merging))
    (thenE (liftW (updateProgress env vid Merging 90 ''Merging audio and video'' None))
    (thenE (mergeAudioVideo env vid paths)
    (thenE (liftW (updateProgress env vid Merging 95 ''Audio merged'' None))
    (thenE (interfere env (BeforePhase Transcoding))
    (thenE (liftW (updateProgress env vid Transcoding 95 ''Creating additional resolutions''
                     None))
    (thenE (transcodeResolutions env vid paths)
    (thenE (interfere env (BeforePhase Completed))
           (liftW (updateProgress env vid Completed 100 ''Video processing complete''
                     None)))))))))))))))))"

definition pipeline :: "Env \<Rightarrow> string \<Rightarrow> IVideo \<Rightarrow> unit proc" where
  "pipeline env vid video =
     bindE (callExt EvCreateDirectories
              (createVideoDirectories (env_storage env) (userId video) vid))
       (\<lambda>paths.
          bindE (decompositionPhase env vid video)
            (\<lambda>scs. thenE (generatingPhase env vid video scs)
                      (laterPhases env vid video scs paths)))"

definition lockMetadataFor :: "Env \<Rightarrow> string \<Rightarrow> IVideo \<Rightarrow> IProcessingLockMetadata" where
  "lockMetadataFor env vid video =
     \<lparr>md_videoId = Some vid, md_userId = Some (userId video),
      md_targetDuration = Some (targetDuration video),
      md_estimatedCompletion = Some (env_now env + \<lfloor>targetDuration video * 60 * 1000\<rfloor>)\<rparr>"

text \<open>
  \<open>processVideo\<close>. The video is read once; without the lock the call throws before the
  \<open>try\<close>. \<open>finishRun\<close> is what follows the \<open>try\<close> block: after an error the \<open>catch\<close>
  records the failure and rethrows; in both cases the \<open>finally\<close> releases the lock.
\<close>

fun finishRun :: "string \<Rightarrow> (Error + unit) \<times> world \<Rightarrow> (Error + unit) \<times> world" where
  "finishRun vid (Inr u, w2) = (Inr (), releaseVideoProcessingLock w2)"
| "finishRun vid (Inl e, w2) =
     (Inl e, releaseVideoProcessingLock (handleProcessingError vid e w2))"

fun runWithLock ::
  "Env \<Rightarrow> string \<Rightarrow> IVideo \<Rightarrow> IProcessingLock option \<times> world \<Rightarrow> (Error + unit) \<times> world" where
  "runWithLock env vid video (None, w1) =
     (Inl (mkError ''System is busy processing another video''), w1)"
| "runWithLock env vid video (Some lock, w1) = finishRun vid (pipeline env vid video w1)"

fun processFound :: "Env \<Rightarrow> string \<Rightarrow> IVideo option \<Rightarrow> unit proc" where
  "processFound env vid None w = (Inl (mkError (''Video not found: '' @ vid)), w)"
| "processFound env vid (Some video) w =
     runWithLock env vid video
       (acquireVideoProcessingLock env (''processing-'' @ vid) (lockMetadataFor env vid video) w)"

definition processVideo :: "Env \<Rightarrow> string \<Rightarrow> unit proc" where
  "processVideo env vid w = processFound env vid (videos w vid) w"

text \<open>\<open>cancelProcessing\<close>.\<close>

definition cancelProcessing :: "string \<Rightarrow> world \<Rightarrow> bool \<times> world" where
  "cancelProcessing vid w =
     (case videos w vid of
        None \<Rightarrow> (False, w)
      | Some video \<Rightarrow>
          if status video \<in> {Completed, Failed, Pending} then (False, w)
          else
            (True,
             releaseVideoProcessingLock
               (w\<lparr>videos := findByIdAndUpdate vid
                     (\<lambda>v. v\<lparr>status := Failed,
                             errorMessage := Some ''Processing cancelled by user''\<rparr>)
                     (videos w)\<rparr>)))"

text \<open>The handler of \<open>POST /:id/cancel\<close> (routes/video.routes.ts), after authentication:
  the HTTP status it answers with.\<close>

fun cancelAnswer :: "bool \<times> world \<Rightarrow> nat \<times> world" where
  "cancelAnswer (False, w') = (400, w')"
| "cancelAnswer (True, w') = (200, w')"

definition cancelRoute :: "string \<Rightarrow> string \<Rightarrow> world \<Rightarrow> nat \<times> world" where
  "cancelRoute uid vid w =
     (case videos w vid of
        None \<Rightarrow> (404, w)
      | Some video \<Rightarrow>
          if userId video \<noteq> uid then (404, w) else cancelAnswer (cancelProcessing vid w))"

text \<open>Whether the processing lock is reported held: \<open>lock?.isLocked === true\<close>.\<close>

definition lockHeld :: "world \<Rightarrow> bool" where
  "lockHeld w = (case locks w VIDEO_PROCESSING of None \<Rightarrow> False | Some doc \<Rightarrow> isLocked doc)"

section \<open>Retry service (utils/retry.ts)\<close>

record RetryConfig =
  maxRetries :: nat
  baseDelay :: nat
  maxDelay :: nat
  backoffMultiplier :: nat

definition DEFAULT_RETRY_CONFIG :: RetryConfig where
  "DEFAULT_RETRY_CONFIG =
     \<lparr>maxRetries = 3, baseDelay = 2000, maxDelay = 30000, backoffMultiplier = 2\<rparr>"

definition isRetryableError :: "Error \<Rightarrow> bool" where
  "isRetryableError e =
     (let message = toLowerCase (errMessage e); code = errCode e in
      if code \<in> set [''ECONNRESET'', ''ETIMEDOUT'', ''ENOTFOUND'', ''EAI_AGAIN''] then True
      else if includesStr message ''rate limit'' \<or> includesStr message ''too many requests''
        then True
      else if includesStr message ''service unavailable'' \<or> includesStr message ''503''
        then True
      else if includesStr message ''timeout'' then True
      else if includesStr message ''502'' \<or> includesStr message ''504'' then True
      else False)"

definition incrementRetryCount :: "string \<Rightarrow> nat \<Rightarrow> world \<Rightarrow> world" where
  "incrementRetryCount vid n w =
     w\<lparr>videos := updateSegmentOf vid n (\<lambda>s. s\<lparr>retryCount := retryCount s + 1\<rparr>) (videos w)\<rparr>"

definition markSegmentFailed :: "string \<Rightarrow> nat \<Rightarrow> string \<Rightarrow> world \<Rightarrow> world" where
  "markSegmentFailed vid n msg w =
     w\<lparr>videos := updateSegmentOf vid n
                    (\<lambda>s. s\<lparr>seg_status := SegFailed, seg_error := Some msg\<rparr>) (videos w)\<rparr>"

text \<open>\<open>Math.min(baseDelay * Math.pow(backoffMultiplier, attempt - 1), maxDelay)\<close>.\<close>

definition retryDelay :: "RetryConfig \<Rightarrow> nat \<Rightarrow> nat" where
  "retryDelay cfg attempt =
     min (baseDelay cfg * backoffMultiplier cfg ^ (attempt - 1)) (maxDelay cfg)"

text \<open>\<open>videoId && segmentNumber !== undefined\<close>: the segment the options name, if any.\<close>

definition retryTarget :: "string option \<Rightarrow> nat option \<Rightarrow> (string \<times> nat) option" where
  "retryTarget videoId segNo =
     (case (videoId, segNo) of
        (Some vid, Some n) \<Rightarrow> if vid = [] then None else Some (vid, n)
      | _ \<Rightarrow> None)"

text \<open>The body of the loop of \<open>withRetry\<close>: it returns or throws (\<open>Returned\<close>), or goes on
  to the next attempt with \<open>lastError\<close> set. \<open>fn a\<close> is the outcome of the \<open>a\<close>-th call of
  the retried operation.\<close>

datatype 'a retry_step = Returned "Error + 'a" | Retry Error

definition retryAttempt ::
  "RetryConfig \<Rightarrow> (nat \<Rightarrow> Error + 'a) \<Rightarrow> string option \<Rightarrow> nat option \<Rightarrow> nat \<Rightarrow> world \<Rightarrow>
   'a retry_step \<times> world" where
  "retryAttempt cfg fn videoId segNo attempt w =
     (case fn attempt of
        Inr v \<Rightarrow> (Returned (Inr v), w)
      | Inl e \<Rightarrow>
          (let isLastAttempt = (attempt = maxRetries cfg);
               isRetryable = isRetryableError e
           in if \<not> isRetryable \<or> isLastAttempt then
                (Returned (Inl e),
                 case retryTarget videoId segNo of
                   None \<Rightarrow> w
                 | Some (vid, n) \<Rightarrow> markSegmentFailed vid n (errMessage e) w)
              else
                (let delay = retryDelay cfg attempt;
                     w1 = (case retryTarget videoId segNo of
                             None \<Rightarrow> w
                           | Some (vid, n) \<Rightarrow> incrementRetryCount vid n w)
                 in (Retry e, sleep delay w1))))"

fun afterAttempt ::
  "(Error \<Rightarrow> 'a proc) \<Rightarrow> 'a retry_step \<times> world \<Rightarrow> (Error + 'a) \<times> world" where
  "afterAttempt next (Returned r, w') = (r, w')"
| "afterAttempt next (Retry e, w') = next e w'"

function withRetryLoop ::
  "RetryConfig \<Rightarrow> (nat \<Rightarrow> Error + 'a) \<Rightarrow> string option \<Rightarrow> nat option \<Rightarrow> nat \<Rightarrow>
   Error option \<Rightarrow> 'a proc" where
  "withRetryLoop cfg fn videoId segNo attempt lastError w =
     (if attempt \<le> maxRetries cfg then
        afterAttempt
          (\<lambda>e w'. withRetryLoop cfg fn videoId segNo (attempt + 1) (Some e) w')
          (retryAttempt cfg fn videoId segNo attempt w)
      else
        (Inl (case lastError of Some e \<Rightarrow> e | None \<Rightarrow> mkError ''All retry attempts failed''),
         w))"
  by pat_completeness auto
termination
  by (relation "measure (\<lambda>(cfg, fn, videoId, segNo, attempt, lastError, w).
        maxRetries cfg + 1 - attempt)") auto

declare withRetryLoop.simps [simp del]

definition withRetry ::
  "RetryConfig \<Rightarrow> (nat \<Rightarrow> Error + 'a) \<Rightarrow> string option \<Rightarrow> nat option \<Rightarrow> 'a proc" where
  "withRetry cfg fn videoId segNo = withRetryLoop cfg fn videoId segNo 1 None"

section \<open>Creating a video (routes/video.routes.ts, POST /create)\<close>
















section \<open>Notions the theorems are stated with\<close>


text \<open>What is seen of a run once it has returned: its result, the video's status and
  error message, whether the lock is held, and the calls it made.\<close>

fun runSummary ::
  "string \<Rightarrow> (Error + unit) \<times> world \<Rightarrow>
   (Error + unit) \<times> VideoStatus option \<times> string option option \<times> bool \<times> event list" where
  "runSummary vid (r, w) =
     (r, map_option status (videos w vid), map_option errorMessage (videos w vid),
      lockHeld w, trace w)"

text \<open>The stitching phase shows in the trace as its progress line or as the call to
  \<open>stitchWithCrossfade\<close>.\<close>

fun stitchingEvent :: "event \<Rightarrow> bool" where
  "stitchingEvent (EvStitch ps) = True"
| "stitchingEvent (EvProgress ph n) = (ph = Stitching)"
| "stitchingEvent ev = False"

definition stitchingEntered :: "event list \<Rightarrow> bool" where
  "stitchingEntered tr = list_ex stitchingEvent tr"

text \<open>The delays the run waited, in order.\<close>

fun sleepsOf :: "event list \<Rightarrow> nat list" where
  "sleepsOf [] = []"
| "sleepsOf (EvSleep ms # tr) = ms # sleepsOf tr"
| "sleepsOf (ev # tr) = sleepsOf tr"

text \<open>The segment a positional update would reach, and its persisted \<open>retryCount\<close>.\<close>

definition segmentOf :: "world \<Rightarrow> string \<Rightarrow> nat \<Rightarrow> IVideoSegment option" where
  "segmentOf w vid n =
     (case videos w vid of
        None \<Rightarrow> None
      | Some v \<Rightarrow> find (\<lambda>s. segmentNumber s = n) (segments v))"

definition retryCountOf :: "world \<Rightarrow> string \<Rightarrow> nat \<Rightarrow> nat option" where
  "retryCountOf w vid n = map_option retryCount (segmentOf w vid n)"

text \<open>The \<open>a\<close>-th call for segment \<open>n\<close> returns a completed result.\<close>

definition attemptCompletes :: "Env \<Rightarrow> nat \<Rightarrow> nat \<Rightarrow> bool" where
  "attemptCompletes env n a =
     (case generateAndSaveSegment (env_services env) n a of
        StartThrows e \<Rightarrow> False
      | JobStarted jobId r \<Rightarrow>
          (case r of Inl e \<Rightarrow> False | Inr result \<Rightarrow> gen_status result = GenCompleted))"

text \<open>Segment \<open>n\<close> completes within the \<open>maxRetries\<close> attempts.\<close>

definition segmentSucceeds :: "Env \<Rightarrow> nat \<Rightarrow> bool" where
  "segmentSucceeds env n =
     list_ex (attemptCompletes env n) [1..<cfg_maxRetries (env_config env) + 1]"

definition frameExtracted :: "Env \<Rightarrow> string \<Rightarrow> string \<Rightarrow> nat \<Rightarrow> bool" where
  "frameExtracted env uid vid n =
     (case extractLastFrame (env_services env) (getSegmentPath (env_storage env) uid vid n)
             (getFramePath (env_storage env) uid vid n) of
        Inl e \<Rightarrow> False | Inr p \<Rightarrow> True)"

text \<open>The scenes a run works with: the video's own, or those of the decomposition (the
  model's, or the fallback's when \<open>decomposePrompt\<close> throws).\<close>

definition runScenes :: "Env \<Rightarrow> IVideo \<Rightarrow> IScene list" where
  "runScenes env video =
     (if length (scenes video) = 0 then
        (case decomposePrompt env (promptOf video) (targetDuration video) of
           Inr result \<Rightarrow> res_scenes result
         | Inl e \<Rightarrow>
             res_scenes (generateFallbackScenes (env_config env) (promptOf video)
                           (targetDuration video)))
      else scenes video)"

text \<open>The processing lock can be taken at the run's clock reading.\<close>

definition lockAvailable :: "Env \<Rightarrow> world \<Rightarrow> bool" where
  "lockAvailable env w =
     (lockAbsent (locks w) VIDEO_PROCESSING \<or> lockUnlocked (locks w) VIDEO_PROCESSING
      \<or> lockExpired (locks w) VIDEO_PROCESSING (env_now env))"

definition noInterference :: "boundary \<Rightarrow> world \<Rightarrow> world" where
  "noInterference b w = w"

text \<open>Another request that cancels the video at one boundary.\<close>

definition cancelAt :: "boundary \<Rightarrow> string \<Rightarrow> boundary \<Rightarrow> world \<Rightarrow> world" where
  "cancelAt b vid b' w = (if b' = b then snd (cancelProcessing vid w) else w)"




text \<open>A step of the phases before stitching leaves the locks, every video's files and the
  absence of stitching as they were.\<close>

definition beforeStitching :: "world \<Rightarrow> world \<Rightarrow> bool" where
  "beforeStitching w w' =
     (locks w' = locks w
      \<and> (\<forall>v. map_option files (videos w' v) = map_option files (videos w v))
      \<and> stitchingEntered (trace w') = stitchingEntered (trace w))"

section \<open>Sample inputs\<close>

definition doneSegment :: "nat \<Rightarrow> IVideoSegment" where
  "doneSegment i =
     (initSegment i)\<lparr>seg_status := SegCompleted, filePath := Some (''seg'' @ show_nat i)\<rparr>"

definition sampleScene :: "nat \<Rightarrow> string option \<Rightarrow> IScene" where
  "sampleScene i narration =
     \<lparr>sceneNumber = i, scenePrompt = ''eagle '' @ show_nat i, visualDescription = None,
      continuityNotes = None, narrationText = narration,
      startTime = 12 * (of_nat i - 1), endTime = 12 * of_nat i, transitionType = Crossfade\<rparr>"

definition noFiles :: IVideoFiles where
  "noFiles =
     \<lparr>stitched_720p = None, final_720p = None, final_480p = None, audio = None,
      thumbnail = None\<rparr>"

definition noMetadata :: IVideoMetadata where
  "noMetadata =
     \<lparr>resolution = None, fps = None, codec = None, bitrate = None, voiceId = None,
      voiceName = None\<rparr>"

text \<open>A 36-second video of three segments, as created: pending, no scenes yet.\<close>

definition sampleVideo :: IVideo where
  "sampleVideo =
     \<lparr>userId = ''u1'', title = ''Eagle'', originalPrompt = ''A majestic eagle soaring'',
      enhancedPrompt = None, targetDuration = 36, actualDuration = None, segmentCount = 3,
      segmentDuration = 12, scenes = [], status = Pending, progress = 0,
      currentPhase = None, currentSegment = 0, errorMessage = None,
      segments = [initSegment 1, initSegment 2, initSegment 3], files = noFiles,
      video_metadata = noMetadata, completedAt = None\<rparr>"

text \<open>The same video after a crash in the generating phase: segments 1 and 2 completed.\<close>

definition crashedVideo :: IVideo where
  "crashedVideo =
     sampleVideo\<lparr>scenes := [sampleScene 1 None, sampleScene 2 None, sampleScene 3 None],
       status := Generating, progress := 59, currentSegment := 3,
       errorMessage := Some ''interrupted'',
       segments := [doneSegment 1, doneSegment 2, (initSegment 3)\<lparr>seg_status := SegGenerating\<rparr>]\<rparr>"

definition crashedStore :: video_collection where
  "crashedStore = [''v1'' \<mapsto> crashedVideo]"

definition samplePaths :: VideoPathsResult where
  "samplePaths =
     \<lparr>paths_videoDir = ''dir'', paths_segmentsDir = ''dir/segments'',
      paths_framesDir = ''dir/frames'', paths_stitched720p = ''dir/stitched_720p.mp4'',
      paths_final720p = ''dir/final_720p.mp4'', paths_final480p = ''dir/final_480p.mp4'',
      paths_audio = ''dir/audio.mp3'', paths_thumbnail = ''dir/thumbnail.jpg''\<rparr>"

text \<open>A storage service on a disk that holds the segment files \<open>segs\<close> and on which every
  operation succeeds.\<close>

definition sampleStorage :: "string list \<Rightarrow> StorageService" where
  "sampleStorage segs =
     \<lparr>createVideoDirectories = (\<lambda>u v. Inr samplePaths),
      getVideoPaths = (\<lambda>u v. samplePaths),
      getSegmentPath = (\<lambda>u v n. ''dir/segments/segment_'' @ show_nat n),
      getFramePath = (\<lambda>u v n. ''dir/frames/frame_'' @ show_nat n),
      getExistingSegmentPaths = (\<lambda>u v. segs),
      getFileSize = (\<lambda>p. Inr 1000),
      fileExists = (\<lambda>p. False),
      getPublicUrl = (\<lambda>p. ''http://localhost:3001/uploads/'' @ p)\<rparr>"

definition okResult :: "nat \<Rightarrow> SegmentGenerationResult" where
  "okResult n = \<lparr>gen_jobId = ''job'' @ show_nat n, gen_status = GenCompleted, gen_error = None\<rparr>"

definition okGeneration :: "nat \<Rightarrow> nat \<Rightarrow> GenerationOutcome" where
  "okGeneration n a = JobStarted (''job'' @ show_nat n) (Inr (okResult n))"

definition failingGeneration :: "nat \<Rightarrow> nat \<Rightarrow> nat \<Rightarrow> GenerationOutcome" where
  "failingGeneration k n a =
     (if n = k then JobStarted (''job'' @ show_nat n)
                      (Inr ((okResult n)\<lparr>gen_status := GenFailed, gen_error := Some ''Unknown error''\<rparr>))
      else okGeneration n a)"

definition sampleServices :: "(nat \<Rightarrow> nat \<Rightarrow> GenerationOutcome) \<Rightarrow> Services" where
  "sampleServices gen =
     \<lparr>llmScenes = (\<lambda>p d. Inl (mkError ''no model'')),
      generateAndSaveSegment = gen,
      extractLastFrame = (\<lambda>v out. Inr out),
      stitchWithCrossfade = (\<lambda>ps out. Inr ()),
      generateNarrationScript = (\<lambda>p scs d. Inr ''written by the model''),
      generateNarration = (\<lambda>script out. Inr ()),
      mergeAudioVideoFiles = (\<lambda>v a out. Inr ()),
      generateThumbnail = (\<lambda>v out. Inr ()),
      getVideoMetadata = (\<lambda>v. Inr \<lparr>probe_duration = 24, probe_width = 1280, probe_height = 720,
                                   probe_fps = 30, probe_codec = ''h264''\<rparr>),
      transcodeResolution = (\<lambda>i out w h. Inr ())\<rparr>"

definition sampleConfig :: Config where
  "sampleConfig = \<lparr>cfg_maxRetries = 3, cfg_segment = 12, cfg_lockTimeoutMs = 1800000\<rparr>"

definition sampleEnv ::
  "(nat \<Rightarrow> nat \<Rightarrow> GenerationOutcome) \<Rightarrow> (boundary \<Rightarrow> world \<Rightarrow> world) \<Rightarrow> Env" where
  "sampleEnv gen intf =
     \<lparr>env_services = sampleServices gen,
      env_storage = sampleStorage [''dir/segments/segment_1'', ''dir/segments/segment_2''],
      env_config = sampleConfig, env_now = 5000, env_interference = intf\<rparr>"

definition twoSceneVideo :: IVideo where
  "twoSceneVideo =
     sampleVideo\<lparr>targetDuration := 24, segmentCount := 2,
       scenes := [sampleScene 1 (Some ''Hello''), sampleScene 2 None],
       segments := [initSegment 1, initSegment 2]\<rparr>"

definition sampleWorld :: world where
  "sampleWorld = \<lparr>videos = [''v1'' \<mapsto> twoSceneVideo], locks = Map.empty, trace = []\<rparr>"




definition alwaysTimeout :: "nat \<Rightarrow> Error + string" where
  "alwaysTimeout a = Inl (Error ''API timeout'' [])"

text \<open>A provider whose call for segment \<open>k\<close> times out on every attempt.\<close>

definition timeoutGeneration :: "nat \<Rightarrow> nat \<Rightarrow> nat \<Rightarrow> GenerationOutcome" where
  "timeoutGeneration k n a =
     (if n = k then StartThrows (Error ''API timeout'' []) else okGeneration n a)"

section \<open>Theorems\<close>

text \<open>
  C1. acquireLock(key, lockedBy, metadata, timeoutMs): when no row with the key exists, or
  its row is unlocked, or its expiresAt is before now, the one conditional
  update-with-upsert leaves the row as isLocked = true, lockedBy, lockedAt = now,
  expiresAt = now + timeoutMs (with the metadata) and the call returns that row; otherwise
  (held and not expired, whoever the owner is) it returns null and the collection is
  unchanged.
\<close>

theorem acquireLock_atomic_iff:
  "acquireLock k owner md timeoutMs now coll =
     (if lockAbsent coll k \<or> lockUnlocked coll k \<or> lockExpired coll k now
      then (Some (heldLock owner now timeoutMs md), coll(k \<mapsto> heldLock owner now timeoutMs md))
      else (None, coll))"
  by (auto simp: acquireLock_def findOneAndUpdateUpsert_def acquireFilter_def acquireUpdate_def
      lockAbsent_def lockUnlocked_def lockExpired_def heldLock_def lockDefaults_def Let_def
      split: option.splits)

theorem acquireLock_atomic_iff_witness:
  "acquireLock VIDEO_PROCESSING ''processing-v1'' emptyMetadata 1800000 5000 Map.empty
     = (Some (heldLock ''processing-v1'' 5000 1800000 emptyMetadata),
        [VIDEO_PROCESSING \<mapsto> heldLock ''processing-v1'' 5000 1800000 emptyMetadata])
   \<and> acquireLock VIDEO_PROCESSING ''processing-v2'' emptyMetadata 1800000 5000
         [VIDEO_PROCESSING \<mapsto> heldLock ''processing-v1'' 1000 3000 emptyMetadata]
     = (Some (heldLock ''processing-v2'' 5000 1800000 emptyMetadata),
        [VIDEO_PROCESSING \<mapsto> heldLock ''processing-v2'' 5000 1800000 emptyMetadata])
   \<and> acquireLock VIDEO_PROCESSING ''processing-v2'' emptyMetadata 1800000 5000
         [VIDEO_PROCESSING \<mapsto> heldLock ''processing-v1'' 1000 1800000 emptyMetadata]
     = (None, [VIDEO_PROCESSING \<mapsto> heldLock ''processing-v1'' 1000 1800000 emptyMetadata])"
  using
    acquireLock_atomic_iff [of VIDEO_PROCESSING "''processing-v1''" emptyMetadata 1800000 5000
      Map.empty]
    acquireLock_atomic_iff [of VIDEO_PROCESSING "''processing-v2''" emptyMetadata 1800000 5000
      "[VIDEO_PROCESSING \<mapsto> heldLock ''processing-v1'' 1000 3000 emptyMetadata]"]
    acquireLock_atomic_iff [of VIDEO_PROCESSING "''processing-v2''" emptyMetadata 1800000 5000
      "[VIDEO_PROCESSING \<mapsto> heldLock ''processing-v1'' 1000 1800000 emptyMetadata]"]
  by (simp add: lockAbsent_def lockUnlocked_def lockExpired_def heldLock_def)

subsection \<open>Recovery\<close>

lemma resumeLoop_takeWhile:
  "i \<le> length segs \<Longrightarrow>
   resumeLoop segs i r =
     (let n = length (takeWhile (\<lambda>s. seg_status s = SegCompleted) (drop i segs))
      in if n = 0 then r else i + n + 1)"
proof (induction segs i r rule: resumeLoop.induct)
  case (1 segs i r)
  show ?case
  proof (cases "i < length segs")
    case False
    with "1.prems" show ?thesis by (simp add: resumeLoop.simps)
  next
    case True
    then have d: "drop i segs = segs ! i # drop (Suc i) segs"
      by (simp add: Cons_nth_drop_Suc)
    show ?thesis
    proof (cases "seg_status (segs ! i) = SegCompleted")
      case False
      with True d show ?thesis by (simp add: resumeLoop.simps)
    next
      case c: True
      from True have "i + 1 \<le> length segs" by simp
      from "1.IH"[OF True c this] True c d show ?thesis
        by (subst resumeLoop.simps) (simp add: Let_def)
    qed
  qed
qed

lemma resumeLoop_prefix: "resumeLoop segs 0 (Suc 0) = Suc (length (completedPrefix segs))"
  using resumeLoop_takeWhile[of 0 segs 1] by (simp add: completedPrefix_def Let_def)

lemma completedPrefix_largest:
  "n \<le> length segs \<Longrightarrow> (\<forall>j<n. seg_status (segs ! j) = SegCompleted) \<Longrightarrow>
   n \<le> length (completedPrefix segs)"
  unfolding completedPrefix_def
  by (metis (mono_tags, lifting) length_takeWhile_le linorder_not_less nth_length_takeWhile
      order_le_less)

lemma completedPrefix_take:
  "completedPrefix segs = take (length (completedPrefix segs)) segs"
  unfolding completedPrefix_def by (metis takeWhile_eq_take)

lemma completedPrefix_all:
  "j < length (completedPrefix segs) \<Longrightarrow> seg_status (segs ! j) = SegCompleted"
  unfolding completedPrefix_def
  by (metis (mono_tags, lifting) nth_mem set_takeWhileD takeWhile_nth)

text \<open>
  C5. Recovery of a video whose persisted status is generating: with n the length of the
  largest prefix of the ordered segments whose status is completed (the first n segments
  are completed, and no longer prefix is), the stored video becomes the same document
  with status = pending, currentSegment = n + 1 and errorMessage = null; every other
  field, the segments and the scenes among them, is as before. The call reports
  recovered with the resume point n + 1.
\<close>

theorem recoverVideo_generating:
  assumes "coll vid = Some video" and "status video = Generating"
  shows "recoverVideo st vid coll =
           (Inr \<lparr>recovered = True,
                 rr_message = ''Marked for resume from segment ''
                    @ show_nat (length (completedPrefix (segments video)) + 1),
                 resumeFrom = Some (length (completedPrefix (segments video)) + 1)\<rparr>,
            coll(vid \<mapsto> video\<lparr>status := Pending,
                   currentSegment := length (completedPrefix (segments video)) + 1,
                   errorMessage := None\<rparr>))
         \<and> completedPrefix (segments video)
             = take (length (completedPrefix (segments video))) (segments video)
         \<and> (\<forall>j < length (completedPrefix (segments video)).
              seg_status (segments video ! j) = SegCompleted)
         \<and> (\<forall>m \<le> length (segments video).
              (\<forall>j<m. seg_status (segments video ! j) = SegCompleted) \<longrightarrow>
              m \<le> length (completedPrefix (segments video)))"
proof -
  have "recoverVideo st vid coll =
           (Inr \<lparr>recovered = True,
                 rr_message = ''Marked for resume from segment ''
                    @ show_nat (length (completedPrefix (segments video)) + 1),
                 resumeFrom = Some (length (completedPrefix (segments video)) + 1)\<rparr>,
            coll(vid \<mapsto> video\<lparr>status := Pending,
                   currentSegment := length (completedPrefix (segments video)) + 1,
                   errorMessage := None\<rparr>))"
    using assms
    by (simp add: recoverVideo_def recoverFromGeneration_def findByIdAndUpdate_def
        resumeLoop_prefix Let_def)
  moreover have "completedPrefix (segments video)
             = take (length (completedPrefix (segments video))) (segments video)"
    by (rule completedPrefix_take)
  ultimately show ?thesis
    using completedPrefix_all completedPrefix_largest by blast
qed

theorem recoverVideo_generating_witness:
  "recoverVideo (sampleStorage []) ''v1'' crashedStore =
     (Inr \<lparr>recovered = True, rr_message = ''Marked for resume from segment 3'',
           resumeFrom = Some 3\<rparr>,
      crashedStore(''v1'' \<mapsto> crashedVideo\<lparr>status := Pending, currentSegment := 3,
        errorMessage := None\<rparr>))
   \<and> scenes (crashedVideo\<lparr>status := Pending, currentSegment := 3, errorMessage := None\<rparr>)
       = scenes crashedVideo
   \<and> segments (crashedVideo\<lparr>status := Pending, currentSegment := 3, errorMessage := None\<rparr>)
       = [doneSegment 1, doneSegment 2, (initSegment 3)\<lparr>seg_status := SegGenerating\<rparr>]"
proof -
  have a: "crashedStore ''v1'' = Some crashedVideo"
    by (simp add: crashedStore_def)
  have b: "status crashedVideo = Generating"
    by (simp add: crashedVideo_def)
  have n: "length (completedPrefix (segments crashedVideo)) = 2"
    by (simp add: completedPrefix_def crashedVideo_def doneSegment_def initSegment_def)
  have s: "show_nat 3 = ''3''"
    by (simp add: show_nat.simps digitChar_def)
  from recoverVideo_generating [of crashedStore "''v1''" crashedVideo "sampleStorage []"] a b n s
  show ?thesis
    by (simp add: crashedVideo_def)
qed

lemma recoverFromGeneration_pending:
  assumes "coll vid = Some video"
  shows "recoverFromGeneration vid video coll =
           (Inr \<lparr>recovered = True,
                 rr_message = ''Marked for resume from segment ''
                    @ show_nat (resumeLoop (segments video) 0 1),
                 resumeFrom = Some (resumeLoop (segments video) 0 1)\<rparr>,
            coll(vid \<mapsto> video\<lparr>status := Pending,
                   currentSegment := resumeLoop (segments video) 0 1,
                   errorMessage := None\<rparr>))"
  using assms by (simp add: recoverFromGeneration_def findByIdAndUpdate_def Let_def)

text \<open>For a video in the stitching, audio, merging or transcoding phase the first storage
  call is given the \<open>ObjectId\<close>: the call rejects and nothing is written.\<close>

lemma recoverVideo_later_phase:
  assumes "coll vid = Some video" and "status video \<in> {Stitching, Audio, Merging, Transcoding}"
  shows "recoverVideo st vid coll = (Inl pathTypeError, coll)"
  using assms
  by (auto simp: recoverVideo_def recoverFromStitching_def recoverFromPostProcessing_def
      getExistingSegmentPathsFor_def getVideoPathsFor_def)

lemma recoverVideo_not_recoverable:
  "coll vid = Some v \<Longrightarrow> status v \<in> {Pending, Decomposing, Completed, Failed} \<Longrightarrow>
   recoverVideo st vid coll =
     (Inr \<lparr>recovered = False, rr_message = ''Video not in recoverable state'',
           resumeFrom = None\<rparr>,
      coll)"
  by (auto simp: recoverVideo_def)

lemma recoverVideo_cases:
  assumes "recoverVideo st vid coll = (Inr r, c)"
  shows "(recovered r \<and> (\<exists>v'. c = coll(vid \<mapsto> v') \<and> status v' = Pending)) \<or>
         (\<not> recovered r \<and> c = coll)"
proof (cases "coll vid")
  case None
  with assms show ?thesis by (auto simp: recoverVideo_def)
next
  case (Some video)
  show ?thesis
  proof (cases "status video")
    case Generating
    with Some have "recoverVideo st vid coll = recoverFromGeneration vid video coll"
      by (simp add: recoverVideo_def)
    with assms recoverFromGeneration_pending[of coll vid video] Some show ?thesis by auto
  next
    case Stitching
    with assms recoverVideo_later_phase[of coll vid video st] Some show ?thesis by simp
  next
    case Audio
    with assms recoverVideo_later_phase[of coll vid video st] Some show ?thesis by simp
  next
    case Merging
    with assms recoverVideo_later_phase[of coll vid video st] Some show ?thesis by simp
  next
    case Transcoding
    with assms recoverVideo_later_phase[of coll vid video st] Some show ?thesis by simp
  qed (use assms Some in \<open>auto simp: recoverVideo_def\<close>)
qed

text \<open>
  C6, as the code has it. Let a first call to recoverVideo return a decision. If it did
  not recover (the video is missing or not in a recoverable state), it wrote nothing and
  a second call right after it (same disk) returns the same decision and writes nothing.
  If it recovered, the stored video now has status pending, and the second call answers
  recovered = false, "Video not in recoverable state", with no resume point, leaving the
  stored videos as the first call left them.
\<close>

theorem recoverVideo_twice:
  assumes "recoverVideo st vid coll = (Inr r1, c1)"
  shows "if recovered r1
         then (\<exists>v'. c1 vid = Some v' \<and> status v' = Pending)
              \<and> recoverVideo st vid c1 =
                  (Inr \<lparr>recovered = False, rr_message = ''Video not in recoverable state'',
                        resumeFrom = None\<rparr>, c1)
         else c1 = coll \<and> recoverVideo st vid c1 = (Inr r1, c1)"
proof (cases "recovered r1")
  case True
  with recoverVideo_cases[OF assms] obtain v' where v: "c1 vid = Some v'" "status v' = Pending"
    by auto
  then have "recoverVideo st vid c1 =
     (Inr \<lparr>recovered = False, rr_message = ''Video not in recoverable state'',
           resumeFrom = None\<rparr>, c1)"
    by (intro recoverVideo_not_recoverable[where v = v']) simp_all
  with True v show ?thesis by auto
next
  case False
  with recoverVideo_cases[OF assms] have "c1 = coll" by auto
  with assms False show ?thesis by simp
qed

lemma crashed_first_call:
  "recoverVideo (sampleStorage []) ''v1'' crashedStore =
     (Inr \<lparr>recovered = True, rr_message = ''Marked for resume from segment 3'',
           resumeFrom = Some 3\<rparr>,
      crashedStore(''v1'' \<mapsto> crashedVideo\<lparr>status := Pending, currentSegment := 3,
        errorMessage := None\<rparr>))"
proof -
  have "resumeLoop (segments crashedVideo) 0 (Suc 0) = 3"
    by (simp add: resumeLoop_prefix completedPrefix_def crashedVideo_def doneSegment_def
        initSegment_def)
  moreover have "show_nat 3 = ''3''"
    by (simp add: show_nat.simps digitChar_def)
  moreover have "crashedStore ''v1'' = Some crashedVideo" "status crashedVideo = Generating"
    by (simp_all add: crashedStore_def crashedVideo_def)
  ultimately show ?thesis
    by (simp add: recoverVideo_def recoverFromGeneration_def findByIdAndUpdate_def Let_def)
qed

lemma crashed_second_call:
  "recoverVideo (sampleStorage []) ''v1''
     (crashedStore(''v1'' \<mapsto> crashedVideo\<lparr>status := Pending, currentSegment := 3,
        errorMessage := None\<rparr>)) =
     (Inr \<lparr>recovered = False, rr_message = ''Video not in recoverable state'',
           resumeFrom = None\<rparr>,
      crashedStore(''v1'' \<mapsto> crashedVideo\<lparr>status := Pending, currentSegment := 3,
        errorMessage := None\<rparr>))"
  by (rule recoverVideo_not_recoverable [where v = "crashedVideo\<lparr>status := Pending,
        currentSegment := 3, errorMessage := None\<rparr>"]) simp_all

lemma missing_first_call:
  "recoverVideo (sampleStorage []) ''v2'' crashedStore =
     (Inr \<lparr>recovered = False, rr_message = ''Video not found'', resumeFrom = None\<rparr>,
      crashedStore)"
  by (simp add: recoverVideo_def crashedStore_def)

theorem recoverVideo_twice_witness:
  "recoverVideo (sampleStorage []) ''v1'' crashedStore =
     (Inr \<lparr>recovered = True, rr_message = ''Marked for resume from segment 3'',
           resumeFrom = Some 3\<rparr>,
      crashedStore(''v1'' \<mapsto> crashedVideo\<lparr>status := Pending, currentSegment := 3,
        errorMessage := None\<rparr>))
   \<and> (\<exists>v'. (crashedStore(''v1'' \<mapsto> crashedVideo\<lparr>status := Pending, currentSegment := 3,
                errorMessage := None\<rparr>)) ''v1'' = Some v' \<and> status v' = Pending)
   \<and> recoverVideo (sampleStorage []) ''v1''
        (crashedStore(''v1'' \<mapsto> crashedVideo\<lparr>status := Pending, currentSegment := 3,
           errorMessage := None\<rparr>))
      = (Inr \<lparr>recovered = False, rr_message = ''Video not in recoverable state'',
              resumeFrom = None\<rparr>,
         crashedStore(''v1'' \<mapsto> crashedVideo\<lparr>status := Pending, currentSegment := 3,
           errorMessage := None\<rparr>))
   \<and> recoverVideo (sampleStorage []) ''v2'' crashedStore =
        (Inr \<lparr>recovered = False, rr_message = ''Video not found'', resumeFrom = None\<rparr>,
         crashedStore)"
  using recoverVideo_twice [OF crashed_first_call] recoverVideo_twice [OF missing_first_call]
    crashed_first_call
  by simp

text \<open>
  C6 as stated fails: on the crashed video the first call recovers with resume point 3,
  and the second call, made right after it, answers that the video is not in a
  recoverable state, with no resume point.
\<close>

theorem recoverVideo_twice_counterexample:
  "fst (recoverVideo (sampleStorage []) ''v1'' crashedStore)
     = Inr \<lparr>recovered = True, rr_message = ''Marked for resume from segment 3'',
            resumeFrom = Some 3\<rparr>
   \<and> fst (recoverVideo (sampleStorage []) ''v1''
          (snd (recoverVideo (sampleStorage []) ''v1'' crashedStore)))
     = Inr \<lparr>recovered = False, rr_message = ''Video not in recoverable state'',
            resumeFrom = None\<rparr>"
  by (simp add: crashed_first_call crashed_second_call)

subsection \<open>The processing lock around a run\<close>

lemma lockHeld_release: "\<not> lockHeld (releaseVideoProcessingLock w)"
  by (simp add: lockHeld_def releaseVideoProcessingLock_def releaseLock_def split: option.splits)

lemma acquire_available:
  assumes "lockAvailable env w"
  shows "\<exists>lock. acquireVideoProcessingLock env owner md w =
           (Some lock, w\<lparr>locks := (locks w)(VIDEO_PROCESSING \<mapsto> lock)\<rparr>)"
  using assms
  by (auto simp: lockAvailable_def acquireVideoProcessingLock_def acquireLock_def
      findOneAndUpdateUpsert_def acquireFilter_def acquireUpdate_def lockAbsent_def
      lockUnlocked_def lockExpired_def Let_def split: option.splits)

lemma runSummary_fst: "runSummary vid p = (r, rest) \<Longrightarrow> fst p = r"
  by (cases p) simp

text \<open>Three runs on the two-scene video: all services succeed; segment 2 fails on every
  attempt; all services succeed and the video is cancelled before segment 2.\<close>

lemma run_ok:
  "runSummary ''v1'' (processVideo (sampleEnv okGeneration noInterference) ''v1'' sampleWorld)
   = (Inr (), Some Completed, Some None, False,
      [EvCreateDirectories, EvProgress Decomposing 5, EvProgress Generating 5,
       EvProgress Generating 21, EvGenerateSegment 1 1, EvExtractLastFrame 1,
       EvProgress Generating 54, EvGenerateSegment 2 1, EvProgress Generating 70,
       EvProgress Stitching 70,
       EvStitch [''dir/segments/segment_1'', ''dir/segments/segment_2''],
       EvProgress Stitching 80, EvProgress Audio 80, EvSynthesize ''Hello'',
       EvProgress Audio 90, EvProgress Merging 90, EvMerge, EvThumbnail, EvProbe,
       EvProgress Merging 95, EvProgress Transcoding 95, EvTranscode,
       EvProgress Completed 100])"
  by code_simp

lemma run_failing:
  "runSummary ''v1''
     (processVideo (sampleEnv (failingGeneration 2) noInterference) ''v1'' sampleWorld)
   = (Inl (Error ''Segment 2 failed after 3 retries'' []), Some Failed,
      Some (Some ''Segment 2 failed after 3 retries''), False,
      [EvCreateDirectories, EvProgress Decomposing 5, EvProgress Generating 5,
       EvProgress Generating 21, EvGenerateSegment 1 1, EvExtractLastFrame 1,
       EvProgress Generating 54, EvGenerateSegment 2 1, EvSleep 5000,
       EvGenerateSegment 2 2, EvSleep 10000, EvGenerateSegment 2 3])"
  by code_simp


lemma sampleWorld_video: "videos sampleWorld ''v1'' = Some twoSceneVideo"
  by (simp add: sampleWorld_def)

lemma sampleWorld_lockAvailable: "lockAvailable env sampleWorld"
  by (simp add: lockAvailable_def lockAbsent_def sampleWorld_def)

text \<open>
  C4. A call of processVideo that finds its video and takes the processing lock returns
  with the lock not held, whether the try block completed or threw, and whatever other
  requests (a cancellation among them) did to the store at the boundaries. The store is
  taken to be reliable: the release itself does not throw.
\<close>

theorem processVideo_releases_lock:
  assumes "videos w vid = Some video" and "lockAvailable env w"
  shows "\<not> lockHeld (snd (processVideo env vid w))"
proof -
  obtain lock where a: "acquireVideoProcessingLock env (''processing-'' @ vid)
      (lockMetadataFor env vid video) w
        = (Some lock, w\<lparr>locks := (locks w)(VIDEO_PROCESSING \<mapsto> lock)\<rparr>)"
    using acquire_available[OF assms(2)] by blast
  obtain r w2 where p:
    "pipeline env vid video (w\<lparr>locks := (locks w)(VIDEO_PROCESSING \<mapsto> lock)\<rparr>) = (r, w2)"
    by (cases "pipeline env vid video (w\<lparr>locks := (locks w)(VIDEO_PROCESSING \<mapsto> lock)\<rparr>)")
  show ?thesis
    using assms(1) a p by (cases r) (simp_all add: processVideo_def lockHeld_release)
qed

theorem processVideo_releases_lock_witness:
  "\<not> lockHeld (snd (processVideo (sampleEnv okGeneration noInterference) ''v1'' sampleWorld))
   \<and> fst (processVideo (sampleEnv okGeneration noInterference) ''v1'' sampleWorld) = Inr ()
   \<and> \<not> lockHeld (snd (processVideo (sampleEnv (failingGeneration 2) noInterference) ''v1''
                         sampleWorld))
   \<and> fst (processVideo (sampleEnv (failingGeneration 2) noInterference) ''v1'' sampleWorld)
       = Inl (Error ''Segment 2 failed after 3 retries'' [])
   \<and> \<not> lockHeld (snd (processVideo (sampleEnv okGeneration (cancelAt (BeforeSegment 2) ''v1''))
                         ''v1'' sampleWorld))"
  using processVideo_releases_lock [OF sampleWorld_video sampleWorld_lockAvailable]
    runSummary_fst [OF run_ok] runSummary_fst [OF run_failing]
  by simp

subsection \<open>Cancellation\<close>

text \<open>
  C10. cancelProcessing returns false and leaves the world as it is when the video's
  status is completed or failed, and also when it is pending; the cancel route then
  answers 400 to the video's owner.
\<close>

theorem cancelProcessing_refuses_idle:
  assumes "videos w vid = Some video" and "status video \<in> {Pending, Completed, Failed}"
  shows "cancelProcessing vid w = (False, w) \<and> cancelRoute (userId video) vid w = (400, w)"
  using assms by (auto simp: cancelProcessing_def cancelRoute_def)

theorem cancelProcessing_refuses_idle_witness:
  "cancelProcessing ''v1'' sampleWorld = (False, sampleWorld)
   \<and> cancelRoute ''u1'' ''v1'' sampleWorld = (400, sampleWorld)
   \<and> status twoSceneVideo = Pending"
proof -
  have b: "status twoSceneVideo \<in> {Pending, Completed, Failed}" "userId twoSceneVideo = ''u1''"
    "status twoSceneVideo = Pending"
    by (simp_all add: twoSceneVideo_def sampleVideo_def)
  from cancelProcessing_refuses_idle [of sampleWorld "''v1''" twoSceneVideo]
    sampleWorld_video b
  show ?thesis by simp
qed

subsection \<open>The narration script\<close>

lemma trim_nonempty: "trim t \<noteq> [] \<Longrightarrow> t \<noteq> []"
  by (auto simp: trim_def)

lemma hasUserNarration_iff:
  "hasUserNarration scs \<longleftrightarrow> (\<exists>s \<in> set scs. \<exists>t. narrationText s = Some t \<and> trim t \<noteq> [])"
proof
  assume "hasUserNarration scs"
  then obtain s where "s \<in> set scs"
    and "case narrationText s of None \<Rightarrow> False | Some t \<Rightarrow> t \<noteq> [] \<and> trim t \<noteq> []"
    by (auto simp: hasUserNarration_def list_ex_iff)
  then show "\<exists>s \<in> set scs. \<exists>t. narrationText s = Some t \<and> trim t \<noteq> []"
    by (cases "narrationText s") auto
next
  assume "\<exists>s \<in> set scs. \<exists>t. narrationText s = Some t \<and> trim t \<noteq> []"
  then obtain s t where "s \<in> set scs" "narrationText s = Some t" "trim t \<noteq> []"
    by blast
  moreover from this have "t \<noteq> []" by (simp add: trim_nonempty)
  ultimately show "hasUserNarration scs"
    unfolding hasUserNarration_def list_ex_iff by (intro bexI[of _ s]) simp_all
qed

lemma generateAudio_trace:
  assumes "narrationScript env video scs w = (Inr script, w1)"
  shows "trace (snd (generateAudio env vid video scs paths w)) = trace w1 @ [EvSynthesize script]"
proof (cases "generateNarration (env_services env) script (paths_audio paths)")
  case (Inl e)
  with assms show ?thesis
    by (simp add: generateAudio_def bindE_def thenE_def callExt_def logEvent_def)
next
  case (Inr u)
  with assms show ?thesis
    by (cases "getFileSize (env_storage env) (paths_audio paths)")
       (simp_all add: generateAudio_def bindE_def thenE_def callExt_def logEvent_def
          fromOutcome_def liftW_def setFiles_def)
qed

lemma narrationScript_cases:
  "narrationScript env video scs w =
       (if hasUserNarration scs
        then (Inr (join '' '' (filter (\<lambda>t. t \<noteq> []) (map sceneNarration scs))), w)
        else (generateNarrationScript (env_services env) (promptOf video) scs
                (targetDuration video),
              logEvent EvNarrationScript w))"
  by (simp add: narrationScript_def ret_def callExt_def userNarrationScript_def)

text \<open>
  C8, as the code has it. The scenes' own narration is used if and only if at least one
  scene has a narrationText that is not empty after trimming white space. The script is
  then the trimmed texts of the scenes that have one (\<open>sceneNarration\<close> is the trimmed
  text, empty for a scene without), in scene order, joined by one space, and the
  narration writer is not called. Otherwise (no scene has a non-blank narrationText) the
  script is what the storyboard provider's narration writer returns. The script chosen
  is the one handed to the speech synthesis.
\<close>

theorem narration_script_choice:
  "(hasUserNarration scs \<longleftrightarrow>
      (\<exists>s \<in> set scs. \<exists>t. narrationText s = Some t \<and> trim t \<noteq> []))
   \<and> narrationScript env video scs w =
       (if hasUserNarration scs
        then (Inr (join '' '' (filter (\<lambda>t. t \<noteq> []) (map sceneNarration scs))), w)
        else (generateNarrationScript (env_services env) (promptOf video) scs
                (targetDuration video),
              logEvent EvNarrationScript w))
   \<and> (\<forall>script w1. narrationScript env video scs w = (Inr script, w1) \<longrightarrow>
          trace (snd (generateAudio env vid video scs paths w))
            = trace w1 @ [EvSynthesize script])"
  using hasUserNarration_iff generateAudio_trace narrationScript_cases by blast

lemma mixed_scenes_script:
  "hasUserNarration [sampleScene 1 (Some ''Hello''), sampleScene 2 None]"
  "join '' '' (filter (\<lambda>t. t \<noteq> [])
     (map sceneNarration [sampleScene 1 (Some ''Hello''), sampleScene 2 None])) = ''Hello''"
  "\<not> hasUserNarration [sampleScene 1 None, sampleScene 2 (Some ''  '')]"
  by code_simp+

theorem narration_script_choice_witness:
  "narrationScript (sampleEnv okGeneration noInterference) twoSceneVideo
     [sampleScene 1 (Some ''Hello''), sampleScene 2 None] sampleWorld
     = (Inr ''Hello'', sampleWorld)
   \<and> trace (snd (generateAudio (sampleEnv okGeneration noInterference) ''v1'' twoSceneVideo
        [sampleScene 1 (Some ''Hello''), sampleScene 2 None] samplePaths sampleWorld))
     = [EvSynthesize ''Hello'']
   \<and> narrationScript (sampleEnv okGeneration noInterference) twoSceneVideo
        [sampleScene 1 None, sampleScene 2 (Some ''  '')] sampleWorld
     = (Inr ''written by the model'', logEvent EvNarrationScript sampleWorld)"
proof -
  note a = narration_script_choice [of "[sampleScene 1 (Some ''Hello''), sampleScene 2 None]"
      "sampleEnv okGeneration noInterference" twoSceneVideo sampleWorld "''v1''" samplePaths]
  note b = narration_script_choice [of "[sampleScene 1 None, sampleScene 2 (Some ''  '')]"
      "sampleEnv okGeneration noInterference" twoSceneVideo sampleWorld "''v1''" samplePaths]
  have n1: "narrationScript (sampleEnv okGeneration noInterference) twoSceneVideo
     [sampleScene 1 (Some ''Hello''), sampleScene 2 None] sampleWorld
     = (Inr ''Hello'', sampleWorld)"
    using a mixed_scenes_script(1,2) by (simp only: if_True)
  have "trace (snd (generateAudio (sampleEnv okGeneration noInterference) ''v1'' twoSceneVideo
        [sampleScene 1 (Some ''Hello''), sampleScene 2 None] samplePaths sampleWorld))
     = trace sampleWorld @ [EvSynthesize ''Hello'']"
    using a n1 by blast
  then have n2: "trace (snd (generateAudio (sampleEnv okGeneration noInterference) ''v1''
        twoSceneVideo [sampleScene 1 (Some ''Hello''), sampleScene 2 None] samplePaths
        sampleWorld)) = [EvSynthesize ''Hello'']"
    by (simp add: sampleWorld_def)
  have "narrationScript (sampleEnv okGeneration noInterference) twoSceneVideo
        [sampleScene 1 None, sampleScene 2 (Some ''  '')] sampleWorld
     = (generateNarrationScript (env_services (sampleEnv okGeneration noInterference))
          (promptOf twoSceneVideo) [sampleScene 1 None, sampleScene 2 (Some ''  '')]
          (targetDuration twoSceneVideo),
        logEvent EvNarrationScript sampleWorld)"
    using b mixed_scenes_script(3) by (simp only: if_False)
  then have n3: "narrationScript (sampleEnv okGeneration noInterference) twoSceneVideo
        [sampleScene 1 None, sampleScene 2 (Some ''  '')] sampleWorld
     = (Inr ''written by the model'', logEvent EvNarrationScript sampleWorld)"
    by (simp add: sampleEnv_def sampleServices_def)
  from n1 n2 n3 show ?thesis by blast
qed

text \<open>
  C8 as stated fails: the second of these two scenes has no narration text, so not every
  scene has one, and yet the script is the first scene's text and the narration writer
  is not called (the world, its trace included, is unchanged).
\<close>

theorem narration_script_counterexample:
  "fst (narrationScript (sampleEnv okGeneration noInterference) twoSceneVideo
          [sampleScene 1 (Some ''Hello''), sampleScene 2 None] sampleWorld) = Inr ''Hello''
   \<and> trace (snd (narrationScript (sampleEnv okGeneration noInterference) twoSceneVideo
          [sampleScene 1 (Some ''Hello''), sampleScene 2 None] sampleWorld)) = []
   \<and> narrationText (sampleScene 2 None) = None"
  by code_simp

subsection \<open>Segment count and segment duration\<close>














subsection \<open>Retries\<close>

lemma sleepsOf_append: "sleepsOf (xs @ ys) = sleepsOf xs @ sleepsOf ys"
  by (induction xs rule: sleepsOf.induct) simp_all

lemma find_updateFirstSegment:
  assumes "\<And>s. segmentNumber (upd s) = segmentNumber s"
  shows "find (\<lambda>s. segmentNumber s = n) (updateFirstSegment n upd segs)
         = map_option upd (find (\<lambda>s. segmentNumber s = n) segs)"
  by (induction segs) (simp_all add: assms)

lemma segmentOf_updateSegmentOf:
  assumes "\<And>s. segmentNumber (upd s) = segmentNumber s"
  shows "segmentOf (w\<lparr>videos := updateSegmentOf vid n upd (videos w)\<rparr>) vid n
         = map_option upd (segmentOf w vid n)"
  by (cases "videos w vid")
     (simp_all add: segmentOf_def updateSegmentOf_def findByIdAndUpdate_def
        find_updateFirstSegment[OF assms])

lemma segmentOf_updateSegmentStatus:
  assumes "\<And>s. segmentNumber (upd s) = segmentNumber s"
  shows "segmentOf (updateSegmentStatus vid n upd w) vid n = map_option upd (segmentOf w vid n)"
  unfolding updateSegmentStatus_def by (rule segmentOf_updateSegmentOf[OF assms])

lemma segmentOf_logEvent [simp]: "segmentOf (logEvent ev w) vid n = segmentOf w vid n"
  by (simp add: segmentOf_def logEvent_def)

lemma segmentOf_sleep [simp]: "segmentOf (sleep ms w) vid n = segmentOf w vid n"
  by (simp add: sleep_def)

lemma retryCountOf_increment:
  "retryCountOf (incrementRetryCount vid n w) vid n = map_option Suc (retryCountOf w vid n)"
  unfolding incrementRetryCount_def retryCountOf_def
  by (subst segmentOf_updateSegmentOf) (simp_all add: option.map_comp comp_def)

lemma retryCountOf_markFailed:
  "retryCountOf (markSegmentFailed vid n msg w) vid n = retryCountOf w vid n"
  unfolding markSegmentFailed_def retryCountOf_def
  by (subst segmentOf_updateSegmentOf) (simp_all add: option.map_comp comp_def)

lemma retryCountOf_sleep [simp]: "retryCountOf (sleep ms w) vid n = retryCountOf w vid n"
  by (simp add: retryCountOf_def)

lemma trace_logEvent [simp]: "trace (logEvent ev w) = trace w @ [ev]"
  by (simp add: logEvent_def)

lemma trace_sleep [simp]: "trace (sleep ms w) = trace w @ [EvSleep ms]"
  by (simp add: sleep_def)

lemma trace_updateSegmentStatus [simp]: "trace (updateSegmentStatus vid n upd w) = trace w"
  by (simp add: updateSegmentStatus_def)

lemma trace_incrementRetryCount [simp]: "trace (incrementRetryCount vid n w) = trace w"
  by (simp add: incrementRetryCount_def)

lemma trace_markSegmentFailed [simp]: "trace (markSegmentFailed vid n msg w) = trace w"
  by (simp add: markSegmentFailed_def)

text \<open>What one attempt of withRetry does.\<close>

lemma retryAttempt_returned:
  assumes "retryAttempt cfg fn videoId segNo a w = (Returned r, w')"
  shows "r = fn a \<and> trace w' = trace w
         \<and> (\<forall>vid n. retryTarget videoId segNo = Some (vid, n) \<longrightarrow>
               retryCountOf w' vid n = retryCountOf w vid n)
         \<and> (a < maxRetries cfg \<longrightarrow> \<not> (\<exists>e. fn a = Inl e \<and> isRetryableError e))"
  using assms
  by (auto simp: retryAttempt_def Let_def retryCountOf_markFailed
      split: sum.splits if_splits option.splits)

lemma retryAttempt_retry:
  assumes "retryAttempt cfg fn videoId segNo a w = (Retry e, w')"
  shows "fn a = Inl e \<and> isRetryableError e \<and> a \<noteq> maxRetries cfg
         \<and> trace w' = trace w @ [EvSleep (retryDelay cfg a)]
         \<and> (\<forall>vid n. retryTarget videoId segNo = Some (vid, n) \<longrightarrow>
               retryCountOf w' vid n = map_option Suc (retryCountOf w vid n))"
  using assms
  by (auto simp: retryAttempt_def Let_def retryCountOf_increment
      split: sum.splits if_splits option.splits)

lemma withRetryLoop_schedule:
  assumes "a \<le> maxRetries cfg"
  shows "\<exists>k. a \<le> k \<and> k \<le> maxRetries cfg
           \<and> (\<forall>j. a \<le> j \<and> j < k \<longrightarrow> (\<exists>e. fn j = Inl e \<and> isRetryableError e))
           \<and> (k < maxRetries cfg \<longrightarrow> \<not> (\<exists>e. fn k = Inl e \<and> isRetryableError e))
           \<and> fst (withRetryLoop cfg fn videoId segNo a lastError w) = fn k
           \<and> sleepsOf (trace (snd (withRetryLoop cfg fn videoId segNo a lastError w)))
               = sleepsOf (trace w) @ map (retryDelay cfg) [a..<k]
           \<and> (\<forall>vid n. retryTarget videoId segNo = Some (vid, n) \<longrightarrow>
                 retryCountOf (snd (withRetryLoop cfg fn videoId segNo a lastError w)) vid n
                 = map_option (\<lambda>c. c + (k - a)) (retryCountOf w vid n))"
  using assms
proof (induction cfg fn videoId segNo a lastError w rule: withRetryLoop.induct)
  case (1 cfg fn videoId segNo a lastError w)
  obtain step w' where st: "retryAttempt cfg fn videoId segNo a w = (step, w')"
    by (cases "retryAttempt cfg fn videoId segNo a w")
  show ?case
  proof (cases step)
    case (Returned r)
    with st "1.prems" have l: "withRetryLoop cfg fn videoId segNo a lastError w = (r, w')"
      by (subst withRetryLoop.simps) simp
    from retryAttempt_returned[OF st[unfolded Returned]] l "1.prems" show ?thesis
      by (intro exI[of _ a]) (auto simp: option.map_ident)
  next
    case (Retry e)
    note r = retryAttempt_retry[OF st[unfolded Retry]]
    with "1.prems" have lt: "a + 1 \<le> maxRetries cfg" by simp
    from st Retry "1.prems"
    have l: "withRetryLoop cfg fn videoId segNo a lastError w
             = withRetryLoop cfg fn videoId segNo (a + 1) (Some e) w'"
      by (subst withRetryLoop.simps) simp
    from "1.IH"[OF "1.prems" lt] obtain k where k:
      "a + 1 \<le> k" "k \<le> maxRetries cfg"
      "\<forall>j. a + 1 \<le> j \<and> j < k \<longrightarrow> (\<exists>e. fn j = Inl e \<and> isRetryableError e)"
      "k < maxRetries cfg \<longrightarrow> \<not> (\<exists>e. fn k = Inl e \<and> isRetryableError e)"
      "fst (withRetryLoop cfg fn videoId segNo (a + 1) (Some e) w') = fn k"
      "sleepsOf (trace (snd (withRetryLoop cfg fn videoId segNo (a + 1) (Some e) w')))
         = sleepsOf (trace w') @ map (retryDelay cfg) [a + 1..<k]"
      "\<forall>vid n. retryTarget videoId segNo = Some (vid, n) \<longrightarrow>
         retryCountOf (snd (withRetryLoop cfg fn videoId segNo (a + 1) (Some e) w')) vid n
         = map_option (\<lambda>c. c + (k - (a + 1))) (retryCountOf w' vid n)"
      by blast
    have prev: "\<forall>j. a \<le> j \<and> j < k \<longrightarrow> (\<exists>e. fn j = Inl e \<and> isRetryableError e)"
    proof (intro allI impI)
      fix j assume "a \<le> j \<and> j < k"
      then consider "j = a" | "a + 1 \<le> j \<and> j < k" by linarith
      then show "\<exists>e. fn j = Inl e \<and> isRetryableError e"
        using r k(3) by cases auto
    qed
    have up: "[a..<k] = a # [a + 1..<k]"
      using k(1) by (simp add: upt_conv_Cons)
    have sl: "sleepsOf (trace (snd (withRetryLoop cfg fn videoId segNo a lastError w)))
               = sleepsOf (trace w) @ map (retryDelay cfg) [a..<k]"
      using k(6) r l by (simp add: sleepsOf_append up)
    have rc: "\<forall>vid n. retryTarget videoId segNo = Some (vid, n) \<longrightarrow>
                 retryCountOf (snd (withRetryLoop cfg fn videoId segNo a lastError w)) vid n
                 = map_option (\<lambda>c. c + (k - a)) (retryCountOf w vid n)"
    proof (intro allI impI)
      fix vid n assume t: "retryTarget videoId segNo = Some (vid, n)"
      have "Suc (c + (k - Suc a)) = c + (k - a)" for c
        using k(1) by simp
      with t k(7) r l
      show "retryCountOf (snd (withRetryLoop cfg fn videoId segNo a lastError w)) vid n
                 = map_option (\<lambda>c. c + (k - a)) (retryCountOf w vid n)"
        by (simp add: option.map_comp comp_def)
    qed
    from k(1,2,4,5) prev sl rc l show ?thesis
      by (intro exI[of _ k]) simp
  qed
qed

subsection \<open>Steps before stitching\<close>

lemma beforeStitching_refl [simp]: "beforeStitching w w"
  by (simp add: beforeStitching_def)

lemma beforeStitching_trans:
  "beforeStitching w w' \<Longrightarrow> beforeStitching w' w'' \<Longrightarrow> beforeStitching w w''"
  by (simp add: beforeStitching_def)

lemma stitchingEntered_snoc:
  "stitchingEntered (tr @ [ev]) = (stitchingEntered tr \<or> stitchingEvent ev)"
  by (auto simp: stitchingEntered_def)

lemma beforeStitching_logEvent:
  "\<not> stitchingEvent ev \<Longrightarrow> beforeStitching w (logEvent ev w)"
  by (simp add: beforeStitching_def logEvent_def stitchingEntered_snoc)

lemma beforeStitching_sleep [simp]: "beforeStitching w (sleep ms w)"
  by (simp add: sleep_def beforeStitching_logEvent)

lemma files_findByIdAndUpdate:
  assumes "\<And>v. files (upd v) = files v"
  shows "map_option files (findByIdAndUpdate vid upd coll v')
         = map_option files (coll v')"
  by (cases "coll vid") (simp_all add: findByIdAndUpdate_def assms)

lemma beforeStitching_updateSegmentStatus [simp]:
  "beforeStitching w (updateSegmentStatus vid n upd w)"
  by (simp add: beforeStitching_def updateSegmentStatus_def updateSegmentOf_def
      files_findByIdAndUpdate)

lemma files_progressUpdate [simp]: "files (progressUpdate ph prog msg cur now v) = files v"
  by (simp add: progressUpdate_def Let_def split: option.splits)

lemma beforeStitching_updateProgress:
  "ph \<noteq> Stitching \<Longrightarrow> beforeStitching w (updateProgress env vid ph prog msg cur w)"
  by (simp add: beforeStitching_def updateProgress_def logEvent_def stitchingEntered_snoc
      files_findByIdAndUpdate)

lemma beforeStitching_storeScenes [simp]: "beforeStitching w (storeScenes vid result w)"
  by (simp add: beforeStitching_def storeScenes_def files_findByIdAndUpdate)

subsection \<open>The retry loop of the orchestrator\<close>

lemma beforeStitching_attemptThrew:
  "beforeStitching w (snd (attemptThrew env vid segNo a e w))"
  by (simp add: attemptThrew_def)

lemma beforeStitching_segmentAttempt:
  "beforeStitching w (snd (segmentAttempt env segNo out vid a w))"
proof -
  have g: "beforeStitching w (logEvent (EvGenerateSegment segNo a)
             (updateSegmentStatus vid segNo upd w))" for upd
    by (rule beforeStitching_trans[where w' = "updateSegmentStatus vid segNo upd w"])
       (simp_all add: beforeStitching_logEvent)
  have t: "beforeStitching w w1 \<Longrightarrow> beforeStitching w (snd (attemptThrew env vid segNo a e w1))"
    for w1 e
    by (erule beforeStitching_trans) (rule beforeStitching_attemptThrew)
  have u: "beforeStitching w w1 \<Longrightarrow> beforeStitching w (updateSegmentStatus vid segNo upd w1)"
    for w1 upd
    by (erule beforeStitching_trans) simp
  have s: "beforeStitching w w1 \<Longrightarrow> beforeStitching w (sleep ms w1)" for w1 ms
    by (erule beforeStitching_trans) simp
  show ?thesis
    unfolding segmentAttempt_def Let_def
    by (auto split: GenerationOutcome.splits sum.splits intro!: t u s g)
qed

lemma retryCount_attemptThrew:
  "map_option retryCount (segmentOf (snd (attemptThrew env vid segNo a e w)) vid segNo)
   = map_option retryCount (segmentOf w vid segNo)"
  by (simp add: attemptThrew_def segmentOf_updateSegmentStatus option.map_comp comp_def)

lemma sleeps_attemptThrew:
  "sleepsOf (trace (snd (attemptThrew env vid segNo a e w)))
   = sleepsOf (trace w)
     @ (if a = cfg_maxRetries (env_config env) then [] else [5000 * a])"
  by (simp add: attemptThrew_def sleepsOf_append)

lemma fst_attemptThrew:
  "fst (attemptThrew env vid segNo a e w)
   = (if a = cfg_maxRetries (env_config env) then Some (SegmentFailed (errMessage e)) else None)"
  by (simp add: attemptThrew_def)

lemma retryCount_segmentAttempt:
  "retryCountOf (snd (segmentAttempt env segNo out vid a w)) vid segNo
   = map_option (\<lambda>_. a - 1) (retryCountOf w vid segNo)"
  unfolding segmentAttempt_def Let_def
  by (auto split: GenerationOutcome.splits sum.splits
      simp: retryCount_attemptThrew retryCountOf_def segmentOf_updateSegmentStatus
        option.map_comp comp_def)

lemma segmentAttempt_completes:
  assumes "attemptCompletes env segNo a"
  shows "fst (segmentAttempt env segNo out vid a w) = Some SegmentCompleted"
    and "sleepsOf (trace (snd (segmentAttempt env segNo out vid a w))) = sleepsOf (trace w)"
  using assms unfolding segmentAttempt_def attemptCompletes_def Let_def
  by (auto split: GenerationOutcome.splits sum.splits simp: sleepsOf_append)

lemma segmentAttempt_fails:
  assumes "\<not> attemptCompletes env segNo a" and "a \<le> cfg_maxRetries (env_config env)"
  shows "fst (segmentAttempt env segNo out vid a w) \<noteq> Some SegmentCompleted"
    and "a < cfg_maxRetries (env_config env) \<Longrightarrow>
         fst (segmentAttempt env segNo out vid a w) = None"
    and "sleepsOf (trace (snd (segmentAttempt env segNo out vid a w)))
         = sleepsOf (trace w)
           @ (if a = cfg_maxRetries (env_config env) then [] else [5000 * a])"
  using assms unfolding segmentAttempt_def attemptCompletes_def Let_def
  by (auto split: GenerationOutcome.splits sum.splits
      simp: sleepsOf_append sleeps_attemptThrew fst_attemptThrew)

lemma beforeStitching_generateSegmentLoop:
  "beforeStitching w (snd (generateSegmentLoop env segNo out vid a w))"
proof (induction env segNo out vid a w rule: generateSegmentLoop.induct)
  case (1 env segNo out vid a w)
  show ?case
  proof (cases "a \<le> cfg_maxRetries (env_config env)")
    case False
    then show ?thesis by (subst generateSegmentLoop.simps) simp
  next
    case True
    obtain res w' where st: "segmentAttempt env segNo out vid a w = (res, w')"
      by (cases "segmentAttempt env segNo out vid a w")
    have b: "beforeStitching w w'"
      using beforeStitching_segmentAttempt[of w env segNo out vid a] st by simp
    show ?thesis
    proof (cases res)
      case (Some outcome)
      with st True b show ?thesis by (subst generateSegmentLoop.simps) simp
    next
      case None
      with st True have "generateSegmentLoop env segNo out vid a w
                         = generateSegmentLoop env segNo out vid (a + 1) w'"
        by (subst generateSegmentLoop.simps) simp
      with "1.IH"[OF True, of w'] b show ?thesis
        by (auto intro: beforeStitching_trans)
    qed
  qed
qed

lemma generateSegmentLoop_schedule:
  assumes "a \<le> cfg_maxRetries (env_config env)"
  shows "\<exists>k. a \<le> k \<and> k \<le> cfg_maxRetries (env_config env)
           \<and> (\<forall>j. a \<le> j \<and> j < k \<longrightarrow> \<not> attemptCompletes env segNo j)
           \<and> (k < cfg_maxRetries (env_config env) \<longrightarrow> attemptCompletes env segNo k)
           \<and> (fst (generateSegmentLoop env segNo out vid a w) = SegmentCompleted
                \<longleftrightarrow> attemptCompletes env segNo k)
           \<and> sleepsOf (trace (snd (generateSegmentLoop env segNo out vid a w)))
               = sleepsOf (trace w) @ map (\<lambda>j. 5000 * j) [a..<k]
           \<and> retryCountOf (snd (generateSegmentLoop env segNo out vid a w)) vid segNo
               = map_option (\<lambda>_. k - 1) (retryCountOf w vid segNo)"
  using assms
proof (induction env segNo out vid a w rule: generateSegmentLoop.induct)
  case (1 env segNo out vid a w)
  let ?max = "cfg_maxRetries (env_config env)"
  obtain res w' where st: "segmentAttempt env segNo out vid a w = (res, w')"
    by (cases "segmentAttempt env segNo out vid a w")
  have rc: "retryCountOf w' vid segNo = map_option (\<lambda>_. a - 1) (retryCountOf w vid segNo)"
    using retryCount_segmentAttempt[of env segNo out vid a w] st by simp
  show ?case
  proof (cases "attemptCompletes env segNo a")
    case True
    from segmentAttempt_completes[OF True, of out vid w] st
    have "res = Some SegmentCompleted" "sleepsOf (trace w') = sleepsOf (trace w)"
      by simp_all
    with st "1.prems" have "generateSegmentLoop env segNo out vid a w = (SegmentCompleted, w')"
      by (subst generateSegmentLoop.simps) simp
    with True \<open>sleepsOf (trace w') = sleepsOf (trace w)\<close> rc "1.prems" show ?thesis
      by (intro exI[of _ a]) auto
  next
    case False
    note f = segmentAttempt_fails[OF False "1.prems", of out vid w]
    show ?thesis
    proof (cases "a = ?max")
      case True
      from f(1,3) st True have nc: "res \<noteq> Some SegmentCompleted"
        and sl: "sleepsOf (trace w') = sleepsOf (trace w)"
        by simp_all
      have "fst (generateSegmentLoop env segNo out vid a w) \<noteq> SegmentCompleted
            \<and> snd (generateSegmentLoop env segNo out vid a w) = w'"
      proof (cases res)
        case None
        with st True show ?thesis
          by (subst (1 2) generateSegmentLoop.simps)
             (simp add: generateSegmentLoop.simps[of env segNo out vid "Suc ?max"])
      next
        case (Some outcome)
        with st True nc show ?thesis
          by (subst (1 2) generateSegmentLoop.simps) simp
      qed
      with False True sl rc show ?thesis
        by (intro exI[of _ a]) auto
    next
      case ne: False
      with "1.prems" have lt: "a < ?max" by simp
      then have le: "a + 1 \<le> ?max" by simp
      from f(2)[OF lt] f(3) st ne have rn: "res = None"
        and sl: "sleepsOf (trace w') = sleepsOf (trace w) @ [5000 * a]"
        by simp_all
      with st "1.prems" have l: "generateSegmentLoop env segNo out vid a w
                         = generateSegmentLoop env segNo out vid (a + 1) w'"
        by (subst generateSegmentLoop.simps) simp
      from "1.IH"[OF "1.prems" le, of w'] obtain k where k:
        "a + 1 \<le> k" "k \<le> ?max"
        "\<forall>j. a + 1 \<le> j \<and> j < k \<longrightarrow> \<not> attemptCompletes env segNo j"
        "k < ?max \<longrightarrow> attemptCompletes env segNo k"
        "fst (generateSegmentLoop env segNo out vid (a + 1) w') = SegmentCompleted
           \<longleftrightarrow> attemptCompletes env segNo k"
        "sleepsOf (trace (snd (generateSegmentLoop env segNo out vid (a + 1) w')))
           = sleepsOf (trace w') @ map (\<lambda>j. 5000 * j) [a + 1..<k]"
        "retryCountOf (snd (generateSegmentLoop env segNo out vid (a + 1) w')) vid segNo
           = map_option (\<lambda>_. k - 1) (retryCountOf w' vid segNo)"
        by blast
      have prev: "\<forall>j. a \<le> j \<and> j < k \<longrightarrow> \<not> attemptCompletes env segNo j"
      proof (intro allI impI)
        fix j assume "a \<le> j \<and> j < k"
        then consider "j = a" | "a + 1 \<le> j \<and> j < k" by linarith
        then show "\<not> attemptCompletes env segNo j"
          using False k(3) by cases auto
      qed
      have up: "[a..<k] = a # [a + 1..<k]"
        using k(1) by (simp add: upt_conv_Cons)
      from k(1,2,4,5,6,7) prev l sl rc up show ?thesis
        by (intro exI[of _ k]) (simp add: option.map_comp comp_def)
    qed
  qed
qed

lemma generateSegmentLoop_result:
  "fst (generateSegmentLoop env segNo out vid 1 w) = SegmentCompleted
   \<longleftrightarrow> segmentSucceeds env segNo"
proof (cases "1 \<le> cfg_maxRetries (env_config env)")
  case False
  then show ?thesis
    by (subst generateSegmentLoop.simps) (simp add: segmentSucceeds_def)
next
  case True
  from generateSegmentLoop_schedule[OF True, of segNo out vid w] obtain k where k:
    "1 \<le> k" "k \<le> cfg_maxRetries (env_config env)"
    "\<forall>j. 1 \<le> j \<and> j < k \<longrightarrow> \<not> attemptCompletes env segNo j"
    "k < cfg_maxRetries (env_config env) \<longrightarrow> attemptCompletes env segNo k"
    "fst (generateSegmentLoop env segNo out vid 1 w) = SegmentCompleted
       \<longleftrightarrow> attemptCompletes env segNo k"
    by blast
  have "segmentSucceeds env segNo \<longleftrightarrow> attemptCompletes env segNo k"
  proof
    assume "segmentSucceeds env segNo"
    then obtain j where "j \<in> set [1..<cfg_maxRetries (env_config env) + 1]"
      and j3: "attemptCompletes env segNo j"
      unfolding segmentSucceeds_def list_ex_iff by blast
    then have j: "1 \<le> j" "j \<le> cfg_maxRetries (env_config env)"
      "attemptCompletes env segNo j"
      by auto
    with k(3) have "k \<le> j" by (meson not_le_imp_less)
    show "attemptCompletes env segNo k"
    proof (cases "k < cfg_maxRetries (env_config env)")
      case True with k(4) show ?thesis by simp
    next
      case False
      with k(2) j(2) \<open>k \<le> j\<close> have "j = k" by simp
      with j(3) show ?thesis by simp
    qed
  next
    assume c: "attemptCompletes env segNo k"
    from k(1,2) have "k \<in> set [1..<cfg_maxRetries (env_config env) + 1]" by auto
    with c show "segmentSucceeds env segNo"
      unfolding segmentSucceeds_def list_ex_iff by blast
  qed
  with k(5) show ?thesis by simp
qed

lemma default_retry_fields:
  "maxRetries DEFAULT_RETRY_CONFIG = 3" "baseDelay DEFAULT_RETRY_CONFIG = 2000"
  "maxDelay DEFAULT_RETRY_CONFIG = 30000" "backoffMultiplier DEFAULT_RETRY_CONFIG = 2"
  by (simp_all add: DEFAULT_RETRY_CONFIG_def)

lemma sampleWorld_no_sleeps: "sleepsOf (trace sampleWorld) = []"
  by (simp add: sampleWorld_def)

lemma timeout_retryable: "isRetryableError (Error ''API timeout'' [])"
  by code_simp

lemma sampleWorld_retryCount: "retryCountOf sampleWorld ''v1'' 2 = Some 0"
  by code_simp

text \<open>The sibling path: RetryService.withRetry on an operation that times out on every
  attempt waits 2000 and 4000 ms, rethrows the error of the third attempt, and has
  incremented the segment's retryCount twice.\<close>

lemma alwaysTimeout_run:
  "fst (withRetry DEFAULT_RETRY_CONFIG alwaysTimeout (Some ''v1'') (Some 2) sampleWorld)
     = Inl (Error ''API timeout'' [])
   \<and> sleepsOf (trace (snd (withRetry DEFAULT_RETRY_CONFIG alwaysTimeout (Some ''v1'') (Some 2)
        sampleWorld))) = [2000, 4000]
   \<and> retryCountOf (snd (withRetry DEFAULT_RETRY_CONFIG alwaysTimeout (Some ''v1'') (Some 2)
        sampleWorld)) ''v1'' 2 = Some 2"
proof -
  have le: "1 \<le> maxRetries DEFAULT_RETRY_CONFIG"
    by (simp add: default_retry_fields)
  from withRetryLoop_schedule [OF le, of alwaysTimeout "Some ''v1''" "Some 2" None sampleWorld]
  obtain k where k: "1 \<le> k" "k \<le> maxRetries DEFAULT_RETRY_CONFIG"
    "k < maxRetries DEFAULT_RETRY_CONFIG \<longrightarrow>
       \<not> (\<exists>e. alwaysTimeout k = Inl e \<and> isRetryableError e)"
    "fst (withRetry DEFAULT_RETRY_CONFIG alwaysTimeout (Some ''v1'') (Some 2) sampleWorld)
       = alwaysTimeout k"
    "sleepsOf (trace (snd (withRetry DEFAULT_RETRY_CONFIG alwaysTimeout (Some ''v1'') (Some 2)
        sampleWorld)))
       = sleepsOf (trace sampleWorld) @ map (retryDelay DEFAULT_RETRY_CONFIG) [1..<k]"
    "\<forall>vid n. retryTarget (Some ''v1'') (Some 2) = Some (vid, n) \<longrightarrow>
       retryCountOf (snd (withRetry DEFAULT_RETRY_CONFIG alwaysTimeout (Some ''v1'') (Some 2)
         sampleWorld)) vid n
       = map_option (\<lambda>c. c + (k - 1)) (retryCountOf sampleWorld vid n)"
    unfolding withRetry_def by blast
  from k(3) timeout_retryable have "\<not> k < maxRetries DEFAULT_RETRY_CONFIG"
    by (auto simp: alwaysTimeout_def)
  with k(2) have k3: "k = 3"
    by (simp add: default_retry_fields)
  have u: "[1..<3] = [1, 2::nat]"
    by (simp add: upt_rec)
  have d: "map (retryDelay DEFAULT_RETRY_CONFIG) [1, 2] = [2000, 4000]"
    by (simp add: retryDelay_def default_retry_fields)
  have "retryTarget (Some ''v1'') (Some 2) = Some (''v1'', 2)"
    by (simp add: retryTarget_def)
  with k(6) have "retryCountOf (snd (withRetry DEFAULT_RETRY_CONFIG alwaysTimeout (Some ''v1'')
      (Some 2) sampleWorld)) ''v1'' 2
       = map_option (\<lambda>c. c + (k - 1)) (retryCountOf sampleWorld ''v1'' 2)"
    by blast
  with k3 sampleWorld_retryCount k(4) k(5) u d show ?thesis
    by (simp add: alwaysTimeout_def sampleWorld_no_sleeps)
qed

text \<open>The orchestrator's loop on a provider that times out on every attempt for
  segment 2.\<close>

lemma timeoutGeneration_attempts:
  "map (generateAndSaveSegment (env_services (sampleEnv (timeoutGeneration 2) noInterference)) 2)
     [1, 2, 3]
   = [StartThrows (Error ''API timeout'' []), StartThrows (Error ''API timeout'' []),
      StartThrows (Error ''API timeout'' [])]"
  by (simp add: sampleEnv_def sampleServices_def timeoutGeneration_def)

lemma orchestrator_timeout_run:
  "fst (generateSegmentWithRetry (sampleEnv (timeoutGeneration 2) noInterference)
          ''eagle 2'' 2 ''out'' None ''v1'' 12 sampleWorld) = SegmentFailed ''API timeout''"
  "sleepsOf (trace (snd (generateSegmentWithRetry (sampleEnv (timeoutGeneration 2)
      noInterference) ''eagle 2'' 2 ''out'' None ''v1'' 12 sampleWorld))) = [5000, 10000]"
  "retryCountOf (snd (generateSegmentWithRetry (sampleEnv (timeoutGeneration 2)
      noInterference) ''eagle 2'' 2 ''out'' None ''v1'' 12 sampleWorld)) ''v1'' 2 = Some 2"
  by code_simp+

text \<open>
  C7 fails on the code. The segment operation that the pipeline retries is
  generateSegmentWithRetry. Input: segment 2 of the two-scene video, maxRetries = 3, the
  provider's call throws the retryable error "API timeout" on each of the three attempts.
  The orchestrator waits 5000 ms after attempt 1 and 10000 ms after attempt 2 (5000 *
  attempt, under the comment "exponential backoff"), where the claimed schedule
  min(2000 * 2^(attempt - 1), 30000) gives 2000 and 4000, the delays RetryService.withRetry
  does wait on the same failures. After the three failed attempts the persisted
  retryCount of the segment is 2, not 3.
\<close>

theorem orchestrator_backoff_divergence:
  "isRetryableError (Error ''API timeout'' [])
   \<and> map (generateAndSaveSegment
            (env_services (sampleEnv (timeoutGeneration 2) noInterference)) 2) [1, 2, 3]
       = [StartThrows (Error ''API timeout'' []), StartThrows (Error ''API timeout'' []),
          StartThrows (Error ''API timeout'' [])]
   \<and> cfg_maxRetries (env_config (sampleEnv (timeoutGeneration 2) noInterference)) = 3
   \<and> fst (generateSegmentWithRetry (sampleEnv (timeoutGeneration 2) noInterference)
            ''eagle 2'' 2 ''out'' None ''v1'' 12 sampleWorld) = SegmentFailed ''API timeout''
   \<and> sleepsOf (trace (snd (generateSegmentWithRetry (sampleEnv (timeoutGeneration 2)
         noInterference) ''eagle 2'' 2 ''out'' None ''v1'' 12 sampleWorld))) = [5000, 10000]
   \<and> map (retryDelay DEFAULT_RETRY_CONFIG) [1, 2] = [2000, 4000]
   \<and> sleepsOf (trace (snd (withRetry DEFAULT_RETRY_CONFIG alwaysTimeout (Some ''v1'') (Some 2)
         sampleWorld))) = [2000, 4000]
   \<and> retryCountOf sampleWorld ''v1'' 2 = Some 0
   \<and> retryCountOf (snd (generateSegmentWithRetry (sampleEnv (timeoutGeneration 2)
         noInterference) ''eagle 2'' 2 ''out'' None ''v1'' 12 sampleWorld)) ''v1'' 2 = Some 2"
proof -
  have "map (retryDelay DEFAULT_RETRY_CONFIG) [1, 2] = [2000, 4000]"
    by (simp add: retryDelay_def default_retry_fields)
  moreover have "cfg_maxRetries (env_config (sampleEnv (timeoutGeneration 2) noInterference)) = 3"
    by (simp add: sampleEnv_def sampleConfig_def)
  ultimately show ?thesis
    using timeout_retryable timeoutGeneration_attempts orchestrator_timeout_run
      alwaysTimeout_run sampleWorld_retryCount
    by blast
qed

subsection \<open>A segment that fails after all its attempts\<close>

lemma interfere_none:
  "env_interference env = noInterference \<Longrightarrow> interfere env b w = (Inr (), w)"
  by (simp add: interfere_def liftW_def noInterference_def)

lemma beforeStitching_afterSegment:
  "beforeStitching w (snd (afterSegment env scs uid vid i prev w))"
proof -
  have e: "beforeStitching w (logEvent (EvExtractLastFrame n) w)" for n
    by (simp add: beforeStitching_logEvent)
  have u: "beforeStitching w (updateSegmentStatus vid n upd
             (logEvent (EvExtractLastFrame n) w))" for upd n
    by (rule beforeStitching_trans[OF e[of n]]) simp
  show ?thesis
    unfolding afterSegment_def Let_def
    by (cases "extractLastFrame (env_services env)
                 (getSegmentPath (env_storage env) uid vid (i + 1))
                 (getFramePath (env_storage env) uid vid (i + 1))")
       (auto simp: bindE_def thenE_def callExt_def liftW_def ret_def e u)
qed

lemma afterSegment_ok:
  assumes "i < length scs - 1 \<longrightarrow> frameExtracted env uid vid (i + 1)"
  shows "\<exists>p. fst (afterSegment env scs uid vid i prev w) = Inr p"
  using assms unfolding afterSegment_def frameExtracted_def Let_def
  by (auto simp: bindE_def thenE_def callExt_def liftW_def ret_def split: sum.splits)

lemma segmentStep_fail:
  assumes "\<not> segmentSucceeds env (i + 1)"
  shows "fst (segmentStep env scs uid vid i prev w) = Inl (segmentFailedError env (i + 1))"
    and "beforeStitching w (snd (segmentStep env scs uid vid i prev w))"
proof -
  obtain outcome w' where g: "generateSegmentLoop env (i + 1)
       (getSegmentPath (env_storage env) uid vid (i + 1)) vid 1 w = (outcome, w')"
    by (cases "generateSegmentLoop env (i + 1)
       (getSegmentPath (env_storage env) uid vid (i + 1)) vid 1 w")
  from generateSegmentLoop_result[of env "i + 1"
      "getSegmentPath (env_storage env) uid vid (i + 1)" vid w] assms g
  have "outcome \<noteq> SegmentCompleted" by simp
  then obtain msg where m: "outcome = SegmentFailed msg" by (cases outcome) auto
  from beforeStitching_generateSegmentLoop[of w env "i + 1"
      "getSegmentPath (env_storage env) uid vid (i + 1)" vid 1] g
  have b: "beforeStitching w w'" by simp
  from g m show "fst (segmentStep env scs uid vid i prev w) = Inl (segmentFailedError env (i + 1))"
    by (simp add: segmentStep_def generateSegmentWithRetry_def Let_def)
  from g m b show "beforeStitching w (snd (segmentStep env scs uid vid i prev w))"
    by (simp add: segmentStep_def generateSegmentWithRetry_def Let_def)
qed

lemma segmentStep_ok:
  assumes "segmentSucceeds env (i + 1)"
    and "i < length scs - 1 \<longrightarrow> frameExtracted env uid vid (i + 1)"
  shows "\<exists>p. fst (segmentStep env scs uid vid i prev w) = Inr p"
    and "beforeStitching w (snd (segmentStep env scs uid vid i prev w))"
proof -
  obtain outcome w' where g: "generateSegmentLoop env (i + 1)
       (getSegmentPath (env_storage env) uid vid (i + 1)) vid 1 w = (outcome, w')"
    by (cases "generateSegmentLoop env (i + 1)
       (getSegmentPath (env_storage env) uid vid (i + 1)) vid 1 w")
  from generateSegmentLoop_result[of env "i + 1"
      "getSegmentPath (env_storage env) uid vid (i + 1)" vid w] assms(1) g
  have m: "outcome = SegmentCompleted" by simp
  from beforeStitching_generateSegmentLoop[of w env "i + 1"
      "getSegmentPath (env_storage env) uid vid (i + 1)" vid 1] g
  have b: "beforeStitching w w'" by simp
  from g m afterSegment_ok[OF assms(2), of prev w']
  show "\<exists>p. fst (segmentStep env scs uid vid i prev w) = Inr p"
    by (simp add: segmentStep_def generateSegmentWithRetry_def Let_def)
  from g m b beforeStitching_afterSegment[of w' env scs uid vid i prev]
  show "beforeStitching w (snd (segmentStep env scs uid vid i prev w))"
    by (auto simp: segmentStep_def generateSegmentWithRetry_def Let_def
        intro: beforeStitching_trans)
qed

lemma segmentIteration_unfold:
  assumes "env_interference env = noInterference"
  shows "segmentIteration env scs uid vid i prev w
         = segmentStep env scs uid vid i prev
             (updateProgress env vid Generating (segmentProgress i (length scs))
                (''Generating segment '' @ show_nat (i + 1) @ '' of '' @ show_nat (length scs))
                (Some (i + 1)) w)"
  by (simp add: segmentIteration_def thenE_def bindE_def interfere_none[OF assms] liftW_def)

lemma segmentIteration_fail:
  assumes "env_interference env = noInterference" and "\<not> segmentSucceeds env (i + 1)"
  shows "fst (segmentIteration env scs uid vid i prev w) = Inl (segmentFailedError env (i + 1))"
    and "beforeStitching w (snd (segmentIteration env scs uid vid i prev w))"
proof -
  let ?w1 = "updateProgress env vid Generating (segmentProgress i (length scs))
                (''Generating segment '' @ show_nat (i + 1) @ '' of '' @ show_nat (length scs))
                (Some (i + 1)) w"
  have b: "beforeStitching w ?w1" by (simp add: beforeStitching_updateProgress)
  from segmentStep_fail(1)[OF assms(2), of scs uid vid prev ?w1]
  show "fst (segmentIteration env scs uid vid i prev w) = Inl (segmentFailedError env (i + 1))"
    by (simp add: segmentIteration_unfold[OF assms(1)])
  from segmentStep_fail(2)[OF assms(2), of ?w1 scs uid vid prev] b
  show "beforeStitching w (snd (segmentIteration env scs uid vid i prev w))"
    by (auto simp: segmentIteration_unfold[OF assms(1)] intro: beforeStitching_trans)
qed

lemma segmentIteration_ok:
  assumes "env_interference env = noInterference" and "segmentSucceeds env (i + 1)"
    and "i < length scs - 1 \<longrightarrow> frameExtracted env uid vid (i + 1)"
  shows "\<exists>p. fst (segmentIteration env scs uid vid i prev w) = Inr p"
    and "beforeStitching w (snd (segmentIteration env scs uid vid i prev w))"
proof -
  let ?w1 = "updateProgress env vid Generating (segmentProgress i (length scs))
                (''Generating segment '' @ show_nat (i + 1) @ '' of '' @ show_nat (length scs))
                (Some (i + 1)) w"
  have b: "beforeStitching w ?w1" by (simp add: beforeStitching_updateProgress)
  from segmentStep_ok(1)[OF assms(2,3), of prev ?w1]
  show "\<exists>p. fst (segmentIteration env scs uid vid i prev w) = Inr p"
    by (simp add: segmentIteration_unfold[OF assms(1)])
  from segmentStep_ok(2)[OF assms(2,3), of ?w1 prev] b
  show "beforeStitching w (snd (segmentIteration env scs uid vid i prev w))"
    by (auto simp: segmentIteration_unfold[OF assms(1)] intro: beforeStitching_trans)
qed

lemma generateAllSegmentsLoop_fail:
  assumes ni: "env_interference env = noInterference"
    and k: "k \<le> length scs" "\<not> segmentSucceeds env k"
    and "i < k"
    and "\<forall>j. i < j \<and> j < k \<longrightarrow> segmentSucceeds env j \<and> frameExtracted env uid vid j"
  shows "fst (generateAllSegmentsLoop env scs uid vid i prev w)
           = Inl (segmentFailedError env k)
         \<and> beforeStitching w (snd (generateAllSegmentsLoop env scs uid vid i prev w))"
  using assms(4,5)
proof (induction "k - 1 - i" arbitrary: i prev w)
  case 0
  then have ik: "i + 1 = k" by simp
  with k have il: "i < length scs" by simp
  obtain r w' where it: "segmentIteration env scs uid vid i prev w = (r, w')"
    by (cases "segmentIteration env scs uid vid i prev w")
  from segmentIteration_fail[where env = env and i = i and scs = scs and uid = uid
      and vid = vid and prev = prev and w = w] ni k(2) ik it
  have "r = Inl (segmentFailedError env k)" "beforeStitching w w'"
    by simp_all
  with il it show ?case
    by (subst (1 2) generateAllSegmentsLoop.simps) simp
next
  case (Suc n)
  then have lt: "i + 1 < k" by simp
  with k have il: "i < length scs" and nl: "i < length scs - 1" by simp_all
  from Suc.prems(2) lt have s: "segmentSucceeds env (i + 1)"
    "i < length scs - 1 \<longrightarrow> frameExtracted env uid vid (i + 1)"
    by simp_all
  obtain r w' where it: "segmentIteration env scs uid vid i prev w = (r, w')"
    by (cases "segmentIteration env scs uid vid i prev w")
  from segmentIteration_ok[where env = env and i = i and scs = scs and uid = uid
      and vid = vid and prev = prev and w = w] ni s it obtain p where
    r: "r = Inr p" and b: "beforeStitching w w'"
    by auto
  have n: "n = k - 1 - (i + 1)" using Suc.hyps(2) by simp
  have rest: "\<forall>j. i + 1 < j \<and> j < k \<longrightarrow> segmentSucceeds env j \<and> frameExtracted env uid vid j"
    using Suc.prems(2) by simp
  from Suc.hyps(1)[where i = "i + 1" and prev = p and w = w'] n lt rest
  have ih: "fst (generateAllSegmentsLoop env scs uid vid (i + 1) p w')
              = Inl (segmentFailedError env k)"
    "beforeStitching w' (snd (generateAllSegmentsLoop env scs uid vid (i + 1) p w'))"
    by simp_all
  from il it r have "generateAllSegmentsLoop env scs uid vid i prev w
        = generateAllSegmentsLoop env scs uid vid (i + 1) p w'"
    by (subst generateAllSegmentsLoop.simps) simp
  with ih b show ?case
    by (auto intro: beforeStitching_trans)
qed

lemma decomposeScenes_result:
  "fst (decomposeScenes env vid video w)
     = Inr (case decomposePrompt env (promptOf video) (targetDuration video) of
              Inr result \<Rightarrow> res_scenes result
            | Inl e \<Rightarrow>
                res_scenes (generateFallbackScenes (env_config env) (promptOf video)
                              (targetDuration video)))
   \<and> beforeStitching w (snd (decomposeScenes env vid video w))"
proof -
  have b: "beforeStitching w (storeScenes vid result (logEvent EvDecompose w))" for result
    by (rule beforeStitching_trans[where w' = "logEvent EvDecompose w"])
       (simp_all add: beforeStitching_logEvent)
  show ?thesis
    by (cases "decomposePrompt env (promptOf video) (targetDuration video)")
       (simp_all add: decomposeScenes_def Let_def b)
qed

lemma decompositionPhase_result:
  assumes "env_interference env = noInterference"
  shows "fst (decompositionPhase env vid video w) = Inr (runScenes env video)
         \<and> beforeStitching w (snd (decompositionPhase env vid video w))"
proof (cases "length (scenes video) = 0")
  case False
  then show ?thesis
    by (simp add: decompositionPhase_def thenE_def bindE_def interfere_none[OF assms]
        liftW_def ret_def runScenes_def beforeStitching_updateProgress)
next
  case True
  let ?w1 = "updateProgress env vid Decomposing 0 ''Decomposing prompt into scenes'' None w"
  obtain r w2 where d: "decomposeScenes env vid video ?w1 = (r, w2)"
    by (cases "decomposeScenes env vid video ?w1")
  from decomposeScenes_result[where env = env and vid = vid and video = video and w = ?w1] d True
  have r: "r = Inr (runScenes env video)" and b2: "beforeStitching ?w1 w2"
    by (simp_all add: runScenes_def)
  have b1: "beforeStitching w ?w1"
    by (simp add: beforeStitching_updateProgress)
  have b3: "beforeStitching w2 (updateProgress env vid Decomposing 5 ''Scenes decomposed'' None w2)"
    by (simp add: beforeStitching_updateProgress)
  from True d r have "decompositionPhase env vid video w
      = (Inr (runScenes env video),
         updateProgress env vid Decomposing 5 ''Scenes decomposed'' None w2)"
    by (simp add: decompositionPhase_def thenE_def bindE_def interfere_none[OF assms]
        liftW_def ret_def)
  with b1 b2 b3 show ?thesis
    by (auto intro: beforeStitching_trans)
qed

lemma generatingPhase_fail:
  assumes ni: "env_interference env = noInterference"
    and k: "1 \<le> k" "k \<le> length scs" "\<not> segmentSucceeds env k"
    and ok: "list_all (\<lambda>j. segmentSucceeds env j \<and> frameExtracted env (userId video) vid j)
               [1..<k]"
  shows "fst (generatingPhase env vid video scs w) = Inl (segmentFailedError env k)
         \<and> beforeStitching w (snd (generatingPhase env vid video scs w))"
proof -
  let ?w1 = "updateProgress env vid Generating 5 ''Starting segment generation'' None w"
  have b1: "beforeStitching w ?w1"
    by (simp add: beforeStitching_updateProgress)
  from ok have all: "\<forall>j. 0 < j \<and> j < k \<longrightarrow>
      segmentSucceeds env j \<and> frameExtracted env (userId video) vid j"
    by (auto simp: list_all_iff)
  from k(1) have z: "0 < k" by simp
  obtain r w2 where g: "generateAllSegmentsLoop env scs (userId video) vid 0 None ?w1 = (r, w2)"
    by (cases "generateAllSegmentsLoop env scs (userId video) vid 0 None ?w1")
  from generateAllSegmentsLoop_fail[where env = env and k = k and scs = scs and i = 0
      and uid = "userId video" and vid = vid and prev = None and w = ?w1] ni k(2,3) z all g
  have r: "r = Inl (segmentFailedError env k)" and b2: "beforeStitching ?w1 w2"
    by simp_all
  from g r have "generatingPhase env vid video scs w = (Inl (segmentFailedError env k), w2)"
    by (simp add: generatingPhase_def generateAllSegments_def thenE_def bindE_def
        interfere_none[OF ni] liftW_def)
  with b1 b2 show ?thesis
    by (auto intro: beforeStitching_trans)
qed

lemma pipeline_fail:
  assumes ni: "env_interference env = noInterference"
    and dirs: "createVideoDirectories (env_storage env) (userId video) vid = Inr paths"
    and k: "1 \<le> k" "k \<le> length (runScenes env video)" "\<not> segmentSucceeds env k"
    and ok: "list_all (\<lambda>j. segmentSucceeds env j \<and> frameExtracted env (userId video) vid j)
               [1..<k]"
  shows "fst (pipeline env vid video w) = Inl (segmentFailedError env k)
         \<and> beforeStitching w (snd (pipeline env vid video w))"
proof -
  let ?w1 = "logEvent EvCreateDirectories w"
  have b1: "beforeStitching w ?w1"
    by (simp add: beforeStitching_logEvent)
  obtain r2 w2 where d: "decompositionPhase env vid video ?w1 = (r2, w2)"
    by (cases "decompositionPhase env vid video ?w1")
  from decompositionPhase_result[where env = env and vid = vid and video = video and w = ?w1] ni d
  have r2: "r2 = Inr (runScenes env video)" and b2: "beforeStitching ?w1 w2"
    by simp_all
  obtain r3 w3 where g: "generatingPhase env vid video (runScenes env video) w2 = (r3, w3)"
    by (cases "generatingPhase env vid video (runScenes env video) w2")
  from generatingPhase_fail[where env = env and k = k and scs = "runScenes env video"
      and video = video and vid = vid and w = w2] ni k ok g
  have r3: "r3 = Inl (segmentFailedError env k)" and b3: "beforeStitching w2 w3"
    by simp_all
  from dirs d r2 g r3 have "pipeline env vid video w = (Inl (segmentFailedError env k), w3)"
    by (simp add: pipeline_def bindE_def thenE_def callExt_def)
  with b1 b2 b3 show ?thesis
    by (auto intro: beforeStitching_trans)
qed

lemma finishRun_failed:
  assumes "videos w2 vid = Some v2"
  shows "finishRun vid (Inl e, w2)
         = (Inl e, releaseVideoProcessingLock (handleProcessingError vid e w2))"
    and "videos (snd (finishRun vid (Inl e, w2))) vid
         = Some (v2\<lparr>status := Failed, errorMessage := Some (errMessage e)\<rparr>)"
    and "trace (snd (finishRun vid (Inl e, w2))) = trace w2"
  using assms
  by (simp_all add: releaseVideoProcessingLock_def handleProcessingError_def
      findByIdAndUpdate_def)

text \<open>
  C2. In a run of processVideo that finds its video, takes the lock and is left alone by
  other requests, let segment k be the first whose generation fails on every one of the
  maxRetries attempts (the segments before it complete and their last frames are
  extracted). Then processVideo throws "Segment k failed after maxRetries retries", the
  stored video has status failed with that message as errorMessage, its files (segments,
  stitched, final, final_720p, final_480p, thumbnail, audio) are as they were before the
  run, no stitching progress update or stitching call was made, and the lock is released.
\<close>

theorem processVideo_segment_failure:
  assumes "videos w vid = Some video" and "lockAvailable env w"
    and "env_interference env = noInterference"
    and "createVideoDirectories (env_storage env) (userId video) vid = Inr paths"
    and "1 \<le> k" and "k \<le> length (runScenes env video)"
    and "list_all (\<lambda>j. segmentSucceeds env j \<and> frameExtracted env (userId video) vid j)
           [1..<k]"
    and "\<not> segmentSucceeds env k"
    and "\<not> stitchingEntered (trace w)"
  shows "fst (processVideo env vid w)
           = Inl (mkError (''Segment '' @ show_nat k @ '' failed after ''
                           @ show_nat (cfg_maxRetries (env_config env)) @ '' retries''))
         \<and> (\<exists>v'. videos (snd (processVideo env vid w)) vid = Some v'
                \<and> status v' = Failed
                \<and> errorMessage v'
                    = Some (''Segment '' @ show_nat k @ '' failed after ''
                            @ show_nat (cfg_maxRetries (env_config env)) @ '' retries'')
                \<and> files v' = files video)
         \<and> \<not> stitchingEntered (trace (snd (processVideo env vid w)))
         \<and> \<not> lockHeld (snd (processVideo env vid w))"
proof -
  obtain lock where a: "acquireVideoProcessingLock env (''processing-'' @ vid)
      (lockMetadataFor env vid video) w
        = (Some lock, w\<lparr>locks := (locks w)(VIDEO_PROCESSING \<mapsto> lock)\<rparr>)"
    using acquire_available[OF assms(2)] by blast
  let ?w1 = "w\<lparr>locks := (locks w)(VIDEO_PROCESSING \<mapsto> lock)\<rparr>"
  let ?e = "segmentFailedError env k"
  obtain r w2 where p: "pipeline env vid video ?w1 = (r, w2)"
    by (cases "pipeline env vid video ?w1")
  from pipeline_fail[where env = env and video = video and vid = vid and paths = paths
      and k = k and w = ?w1] assms(3-8) p
  have r: "r = Inl ?e" and b: "beforeStitching ?w1 w2"
    by simp_all
  from b assms(1) have "map_option files (videos w2 vid) = Some (files video)"
    by (simp add: beforeStitching_def)
  then obtain v2 where v2: "videos w2 vid = Some v2" "files v2 = files video"
    by auto
  from b assms(9) have s: "\<not> stitchingEntered (trace w2)"
    by (simp add: beforeStitching_def)
  from assms(1) a p r have run: "processVideo env vid w = finishRun vid (Inl ?e, w2)"
    by (simp add: processVideo_def)
  have msg: "errMessage ?e = ''Segment '' @ show_nat k @ '' failed after ''
      @ show_nat (cfg_maxRetries (env_config env)) @ '' retries''"
    by (simp add: segmentFailedError_def mkError_def)
  have e: "?e = mkError (''Segment '' @ show_nat k @ '' failed after ''
      @ show_nat (cfg_maxRetries (env_config env)) @ '' retries'')"
    by (simp add: segmentFailedError_def)
  have f: "fst (processVideo env vid w) = Inl ?e"
    unfolding run by simp
  have v: "videos (snd (processVideo env vid w)) vid
      = Some (v2\<lparr>status := Failed, errorMessage := Some (errMessage ?e)\<rparr>)"
    unfolding run by (rule finishRun_failed(2)[OF v2(1)])
  have t: "trace (snd (processVideo env vid w)) = trace w2"
    unfolding run by (rule finishRun_failed(3)[OF v2(1)])
  have l: "\<not> lockHeld (snd (processVideo env vid w))"
    unfolding run by (simp add: lockHeld_release)
  from f e v msg v2(2) t s l show ?thesis
    by simp
qed

lemma failing_run_inputs:
  "env_interference (sampleEnv (failingGeneration 2) noInterference) = noInterference"
  "createVideoDirectories (env_storage (sampleEnv (failingGeneration 2) noInterference))
     (userId twoSceneVideo) ''v1'' = Inr samplePaths"
  "(2::nat) \<le> length (runScenes (sampleEnv (failingGeneration 2) noInterference) twoSceneVideo)"
  "list_all (\<lambda>j. segmentSucceeds (sampleEnv (failingGeneration 2) noInterference) j
              \<and> frameExtracted (sampleEnv (failingGeneration 2) noInterference)
                  (userId twoSceneVideo) ''v1'' j) [1..<2]"
  "\<not> segmentSucceeds (sampleEnv (failingGeneration 2) noInterference) 2"
  "\<not> stitchingEntered (trace sampleWorld)"
  by (simp add: sampleEnv_def, code_simp+)

lemma failing_run_message:
  "''Segment '' @ show_nat 2 @ '' failed after ''
     @ show_nat (cfg_maxRetries (env_config (sampleEnv (failingGeneration 2) noInterference)))
     @ '' retries'' = ''Segment 2 failed after 3 retries''"
  by code_simp

theorem processVideo_segment_failure_witness:
  "fst (processVideo (sampleEnv (failingGeneration 2) noInterference) ''v1'' sampleWorld)
     = Inl (mkError ''Segment 2 failed after 3 retries'')
   \<and> (\<exists>v'. videos (snd (processVideo (sampleEnv (failingGeneration 2) noInterference) ''v1''
                          sampleWorld)) ''v1'' = Some v'
          \<and> status v' = Failed
          \<and> errorMessage v' = Some ''Segment 2 failed after 3 retries''
          \<and> files v' = files twoSceneVideo)
   \<and> \<not> stitchingEntered (trace (snd (processVideo
          (sampleEnv (failingGeneration 2) noInterference) ''v1'' sampleWorld)))
   \<and> \<not> lockHeld (snd (processVideo (sampleEnv (failingGeneration 2) noInterference) ''v1''
                         sampleWorld))"
  using processVideo_segment_failure [where env = "sampleEnv (failingGeneration 2) noInterference"
      and vid = "''v1''" and w = sampleWorld and video = twoSceneVideo and k = 2
      and paths = samplePaths, OF sampleWorld_video sampleWorld_lockAvailable
      failing_run_inputs(1,2) _ failing_run_inputs(3,4,5,6)]
  unfolding failing_run_message
  by simp

subsection \<open>What a run reads of the store\<close>










lemma trace_updateProgress [simp]:
  "trace (updateProgress env vid ph n msg cur w) = trace w @ [EvProgress ph n]"
  by (simp add: updateProgress_def logEvent_def)

lemma trace_setFiles [simp]: "trace (setFiles vid upd w) = trace w"
  by (simp add: setFiles_def)

lemma trace_recordFinal [simp]: "trace (recordFinal env vid paths a b m w) = trace w"
  by (simp add: recordFinal_def)

lemma trace_storeScenes [simp]: "trace (storeScenes vid result w) = trace w"
  by (simp add: storeScenes_def)

lemma trace_handleProcessingError [simp]: "trace (handleProcessingError vid e w) = trace w"
  by (simp add: handleProcessingError_def)

lemma trace_releaseVideoProcessingLock [simp]: "trace (releaseVideoProcessingLock w) = trace w"
  by (simp add: releaseVideoProcessingLock_def)





















subsection \<open>Cancellation of a run in progress\<close>

lemma trace_cancelProcessing [simp]: "trace (snd (cancelProcessing vid w)) = trace w"
  by (simp add: cancelProcessing_def split: option.splits)









end
